theory Spec2Isabelle
  imports Main "HOL-Library.AList"
begin

section \<open>JavaScript values\<close>

text \<open>
  A configuration is whatever \<^verbatim>\<open>response.json()\<close> yields: a JSON value. A number is
  carried as its canonical decimal rendering (what \<^verbatim>\<open>String(n)\<close> gives): the loader
  never computes with a number, it only tests it for truthiness and splices it into
  strings. An object is the list of its own properties. \<^verbatim>\<open>undefined\<close> is \<open>None\<close> of
  \<open>json option\<close>.
\<close>

datatype json =
    JNull
  | JBool bool
  | JNum string
  | JStr string
  | JArr "json list"
  | JObj "(string \<times> json) list"

text \<open>Truthiness, as \<^verbatim>\<open>!x\<close>, \<^verbatim>\<open>x || y\<close> and \<^verbatim>\<open>if (x)\<close> test it.\<close>

fun truthy :: "json \<Rightarrow> bool" where
  "truthy JNull = False"
| "truthy (JBool b) = b"
| "truthy (JNum n) = (n \<noteq> ''0'')"
| "truthy (JStr s) = (s \<noteq> [])"
| "truthy (JArr xs) = True"
| "truthy (JObj kv) = True"

definition truthy_val :: "json option \<Rightarrow> bool" where
  "truthy_val v = (case v of None \<Rightarrow> False | Some j \<Rightarrow> truthy j)"

text \<open>\<^verbatim>\<open>Array.prototype.join(sep)\<close> on strings.\<close>

fun join :: "string \<Rightarrow> string list \<Rightarrow> string" where
  "join sep [] = []"
| "join sep [s] = s"
| "join sep (s # t # ss) = s @ sep @ join sep (t # ss)"

text \<open>\<^verbatim>\<open>hay.includes(needle)\<close>.\<close>

fun starts_with :: "string \<Rightarrow> string \<Rightarrow> bool" where
  "starts_with hay [] = True"
| "starts_with [] (n # ns) = False"
| "starts_with (h # hs) (n # ns) = (h = n \<and> starts_with hs ns)"

fun str_includes :: "string \<Rightarrow> string \<Rightarrow> bool" where
  "str_includes [] needle = (needle = [])"
| "str_includes (h # hs) needle = (starts_with (h # hs) needle \<or> str_includes hs needle)"

subsection \<open>Errors\<close>

text \<open>
  The classes an error thrown in the loader can be an instance of: the built-in
  \<^verbatim>\<open>Error\<close>, \<^verbatim>\<open>TypeError\<close> and \<^verbatim>\<open>SyntaxError\<close>, and the two classes main.js declares.
  An error carries its message and, possibly, a \<^verbatim>\<open>type\<close> property.
\<close>

datatype err_class = Error | TypeError | SyntaxError | ConfigError | GameError

datatype js_error = Thrown (cls: err_class) (message: string) (type_tag: "string option")

text \<open>\<^verbatim>\<open>new Error(msg)\<close>.\<close>

definition new_Error :: "string \<Rightarrow> js_error" where
  "new_Error msg = Thrown Error msg None"

text \<open>
  \<^verbatim>\<open>new ConfigError(message, type = 'CONFIG_ERROR')\<close>: the default applies when the
  argument is \<^verbatim>\<open>undefined\<close>.
\<close>

definition new_ConfigError :: "string \<Rightarrow> string option \<Rightarrow> js_error" where
  "new_ConfigError msg t =
     Thrown ConfigError msg (Some (case t of None \<Rightarrow> ''CONFIG_ERROR'' | Some ty \<Rightarrow> ty))"

definition new_GameError :: "string \<Rightarrow> string option \<Rightarrow> js_error" where
  "new_GameError msg t =
     Thrown GameError msg (Some (case t of None \<Rightarrow> ''GAME_ERROR'' | Some ty \<Rightarrow> ty))"

text \<open>
  The texts of the errors the engine itself raises differ between engines, so they are
  parameters: the message of the \<^verbatim>\<open>TypeError\<close> for reading property \<open>k\<close> of
  \<^verbatim>\<open>null\<close>, of the one for calling \<^verbatim>\<open>forEach\<close> on a value that is no array, and
  of the one for an object that has no primitive value.
\<close>

record engine =
  null_read :: "string \<Rightarrow> string"
  no_forEach :: "json option \<Rightarrow> string"
  no_primitive :: string

text \<open>
  The string conversion of template literals, \<^verbatim>\<open>String(x)\<close>, \<^verbatim>\<open>setAttribute\<close> and
  \<^verbatim>\<open>textContent\<close>. An object is converted by its \<^verbatim>\<open>toString\<close> method: the inherited
  one gives \<open>[object Object]\<close>, but an own property \<open>toString\<close> of a parsed object
  hides it and is no function, the inherited \<^verbatim>\<open>valueOf\<close> (or an own one, no function
  either) gives no primitive, and the conversion throws a \<^verbatim>\<open>TypeError\<close>. An array joins
  the conversions of its elements with commas, \<^verbatim>\<open>null\<close> elements giving the empty
  string; the first element that throws ends the conversion.
\<close>

fun toString :: "engine \<Rightarrow> json \<Rightarrow> js_error + string"
  and toStrings :: "engine \<Rightarrow> json list \<Rightarrow> js_error + string list" where
  "toString eng JNull = Inr ''null''"
| "toString eng (JBool b) = Inr (if b then ''true'' else ''false'')"
| "toString eng (JNum n) = Inr n"
| "toString eng (JStr s) = Inr s"
| "toString eng (JArr xs) =
     (case toStrings eng xs of Inl e \<Rightarrow> Inl e | Inr ss \<Rightarrow> Inr (join '','' ss))"
| "toString eng (JObj kv) =
     (if map_of kv ''toString'' \<noteq> None then Inl (Thrown TypeError (no_primitive eng) None)
      else Inr ''[object Object]'')"
| "toStrings eng [] = Inr []"
| "toStrings eng (x # xs) =
     (case (if x = JNull then Inr [] else toString eng x) of
        Inl e \<Rightarrow> Inl e
      | Inr s \<Rightarrow>
          (case toStrings eng xs of Inl e \<Rightarrow> Inl e | Inr ss \<Rightarrow> Inr (s # ss)))"

text \<open>The same for a value that may be \<^verbatim>\<open>undefined\<close>.\<close>

definition String_val :: "engine \<Rightarrow> json option \<Rightarrow> js_error + string" where
  "String_val eng v = (case v of None \<Rightarrow> Inr ''undefined'' | Some j \<Rightarrow> toString eng j)"

text \<open>
  Reading \<^verbatim>\<open>x[k]\<close> of a JSON value: \<^verbatim>\<open>null\<close> throws, an object gives its own property,
  anything else gives \<^verbatim>\<open>undefined\<close> for the names the loader reads (\<open>gameType\<close>,
  \<open>theme\<close>, \<open>title\<close>, \<open>cards\<close>, \<open>id\<close>, \<open>message\<close>: none is a built-in property of
  arrays, strings, numbers or booleans).
\<close>

fun get_prop :: "engine \<Rightarrow> json \<Rightarrow> string \<Rightarrow> js_error + json option" where
  "get_prop eng JNull k = Inl (Thrown TypeError (null_read eng k) None)"
| "get_prop eng (JObj kv) k = Inr (map_of kv k)"
| "get_prop eng v k = Inr None"

section \<open>The document\<close>

text \<open>
  An element with its tag, class, attributes, inline style, event listeners and children.
  A child is another element, a text node (set through \<^verbatim>\<open>textContent\<close>) or the nodes
  the browser parses from markup assigned to \<^verbatim>\<open>innerHTML\<close>, kept as that markup.
\<close>

datatype element =
  Element (tag: string) (className: string) (attrs: "(string \<times> string) list")
    (styles: "(string \<times> string) list") (listeners: "string list") (kids: "child list")
and child = Text string | Markup string | Elem element

definition createElement :: "string \<Rightarrow> element" where
  "createElement t = Element t [] [] [] [] []"

fun appendChild :: "element \<Rightarrow> element \<Rightarrow> element" where
  "appendChild (Element t c a s l ks) e = Element t c a s l (ks @ [Elem e])"

fun set_className :: "string \<Rightarrow> element \<Rightarrow> element" where
  "set_className c (Element t _ a s l ks) = Element t c a s l ks"

fun setAttribute :: "string \<Rightarrow> string \<Rightarrow> element \<Rightarrow> element" where
  "setAttribute k v (Element t c a s l ks) = Element t c (AList.update k v a) s l ks"

fun set_style :: "string \<Rightarrow> string \<Rightarrow> element \<Rightarrow> element" where
  "set_style k v (Element t c a s l ks) = Element t c a (AList.update k v s) l ks"

fun addEventListener :: "string \<Rightarrow> element \<Rightarrow> element" where
  "addEventListener ev (Element t c a s l ks) = Element t c a s (l @ [ev]) ks"

fun set_textContent :: "string \<Rightarrow> element \<Rightarrow> element" where
  "set_textContent txt (Element t c a s l _) =
     Element t c a s l (if txt = [] then [] else [Text txt])"

fun set_innerHTML :: "string \<Rightarrow> element \<Rightarrow> element" where
  "set_innerHTML html (Element t c a s l _) =
     Element t c a s l (if html = [] then [] else [Markup html])"

section \<open>games/card-flip.js\<close>

text \<open>\<^verbatim>\<open>s.replace(/c/g, r)\<close> for a single character \<open>c\<close>.\<close>

fun replace_all :: "char \<Rightarrow> string \<Rightarrow> string \<Rightarrow> string" where
  "replace_all c r [] = []"
| "replace_all c r (x # xs) =
     (if x = c then r @ replace_all c r xs else x # replace_all c r xs)"

text \<open>\<^verbatim>\<open>String(s)\<close> may throw; the four replacements cannot.\<close>

definition escapeHtml :: "engine \<Rightarrow> json option \<Rightarrow> js_error + string" where
  "escapeHtml eng s =
     (case String_val eng s of
        Inl e \<Rightarrow> Inl e
      | Inr str \<Rightarrow>
          Inr (replace_all (CHR ''>'') ''&gt;''
                 (replace_all (CHR ''<'') ''&lt;''
                   (replace_all (CHR 0x22) ''&quot;''
                     (replace_all (CHR ''&'') ''&amp;'' str)))))"

text \<open>The body of the \<^verbatim>\<open>forEach\<close> callback, up to \<^verbatim>\<open>wrapper.appendChild(card)\<close>.\<close>

definition makeCard :: "engine \<Rightarrow> json \<Rightarrow> js_error + element" where
  \<open>makeCard eng cardData =
     (case get_prop eng cardData ''id'' of
        Inl e \<Rightarrow> Inl e
      | Inr ident \<Rightarrow>
      (case String_val eng ident of
        Inl e \<Rightarrow> Inl e
      | Inr id_text \<Rightarrow>
          let card_el = setAttribute ''data-id'' id_text
                       (set_className ''card'' (createElement ''div''));
              inner = set_className ''card-inner'' (createElement ''div'');
              back = set_className ''card-face card-back'' (createElement ''div'');
              front = set_className ''card-face card-front'' (createElement ''div'')
          in (case get_prop eng cardData ''message'' of
                Inl e \<Rightarrow> Inl e
              | Inr msg \<Rightarrow>
              (case escapeHtml eng msg of
                Inl e \<Rightarrow> Inl e
              | Inr escaped \<Rightarrow>
                  let front = set_innerHTML
                        (''<div class="card-text">'' @ escaped @ ''</div>'') front;
                      inner = appendChild inner back;
                      inner = appendChild inner front;
                      card_el = appendChild card_el inner;
                      card_el = addEventListener ''click'' card_el
                  in Inr card_el))))\<close>

text \<open>\<^verbatim>\<open>config.cards.forEach(...)\<close>: the first callback that throws ends the loop.\<close>

fun forEach_cards :: "engine \<Rightarrow> json list \<Rightarrow> element \<Rightarrow> js_error + element" where
  "forEach_cards eng [] wrapper = Inr wrapper"
| "forEach_cards eng (cardData # rest) wrapper =
     (case makeCard eng cardData of
        Inl e \<Rightarrow> Inl e
      | Inr card_el \<Rightarrow> forEach_cards eng rest (appendChild wrapper card_el))"

text \<open>
  \<^verbatim>\<open>startGame(config, container)\<close> returns nothing; the model returns the container as
  the call leaves it, and the error when it throws.
\<close>

definition startGame :: "engine \<Rightarrow> json \<Rightarrow> element \<Rightarrow> element \<times> js_error option" where
  "startGame eng config container =
     (case get_prop eng config ''title'' of
        Inl e \<Rightarrow> (container, Some e)
      | Inr t \<Rightarrow>
      (case (if truthy_val t then String_val eng t else Inr ''Card Flip'') of
        Inl e \<Rightarrow> (container, Some e)
      | Inr title_text \<Rightarrow>
          let title = set_textContent title_text (createElement ''h2'');
              title = set_style ''textAlign'' ''center'' title;
              container = appendChild container title;
              wrapper = set_className ''cards-wrapper'' (createElement ''div'')
          in (case get_prop eng config ''cards'' of
                Inl e \<Rightarrow> (container, Some e)
              | Inr (Some (JArr cards)) \<Rightarrow>
                  (case forEach_cards eng cards wrapper of
                     Inl e \<Rightarrow> (container, Some e)
                   | Inr wrapper \<Rightarrow> (appendChild container wrapper, None))
              | Inr other \<Rightarrow>
                  (container, Some (Thrown TypeError (no_forEach eng other) None)))))"

section \<open>main.js: the loader\<close>

subsection \<open>The page and its environment\<close>

abbreviation (input) sq :: string where "sq \<equiv> [CHR 0x27]"
abbreviation (input) nl :: string where "nl \<equiv> [CHR 0x0A]"

text \<open>The decimal rendering of a number in a template literal (an HTTP status).\<close>

fun show_nat :: "nat \<Rightarrow> string" where
  "show_nat n =
     (if n < 10 then [''0123456789'' ! n]
      else show_nat (n div 10) @ [''0123456789'' ! (n mod 10)])"

declare show_nat.simps [simp del]

text \<open>
  What a run reads and cannot change: the query string (as \<^verbatim>\<open>URLSearchParams\<close> lists
  it), what \<^verbatim>\<open>fetch\<close>, \<^verbatim>\<open>import()\<close> and an image load do for each address, and the
  engine's own error texts.
\<close>

datatype body = BadJson js_error | Json json

datatype fetch_result =
    FetchRejects js_error
  | Response (status: nat) (statusText: string) (json_body: body)

text \<open>\<^verbatim>\<open>response.ok\<close>: the status is in the range 200 to 299.\<close>

definition ok :: "nat \<Rightarrow> bool" where
  "ok st = (200 \<le> st \<and> st \<le> 299)"

datatype image_outcome = Loaded | LoadFailed

text \<open>
  A game module's \<^verbatim>\<open>startGame\<close>: given the configuration and the container it returns
  the container as it leaves it and the error it throws, if any. A module namespace is
  its \<^verbatim>\<open>startGame\<close> export when that is a function.
\<close>

type_synonym game = "json \<Rightarrow> element \<Rightarrow> element \<times> js_error option"

datatype import_result = ImportRejects js_error | Module "game option"

record env =
  js_engine :: engine
  query :: "(string \<times> string) list"
  fetch :: "string \<Rightarrow> fetch_result"
  import_module :: "string \<Rightarrow> import_result"
  load_image :: "string \<Rightarrow> image_outcome"

datatype request = Fetch string | Import string | ImageLoad string

datatype console_entry =
    Log string
  | Warn string "js_error option"
  | ConsoleError string js_error

text \<open>
  What a run writes: the inline style of \<^verbatim>\<open>document.body\<close> and of
  \<^verbatim>\<open>document.documentElement\<close> (the value last assigned to each property), the
  element \<^verbatim>\<open>#game-container\<close> (the page is taken to have one), the console, and the
  requests issued, in order. \<open>deferred\<close> is the console output of an operation that
  was started and not awaited: it appears at some later time.
\<close>

record page =
  body_style :: "string \<rightharpoonup> string"
  root_style :: "string \<rightharpoonup> string"
  container :: element
  console :: "console_entry list"
  deferred :: "console_entry list"
  requests :: "request list"

subsection \<open>ConfigManager\<close>

definition getUrlParams :: "env \<Rightarrow> (string \<times> string) list" where
  "getUrlParams env = query env"

text \<open>\<^verbatim>\<open>URLSearchParams.get(name)\<close>: the first value of that name, or \<^verbatim>\<open>null\<close>.\<close>

definition params_get :: "(string \<times> string) list \<Rightarrow> string \<Rightarrow> string option" where
  "params_get ps name = map_of ps name"

definition fetchFromUrl :: "env \<Rightarrow> string \<Rightarrow> page \<Rightarrow> (js_error + json) \<times> page" where
  "fetchFromUrl env url p =
     (let p = p\<lparr>requests := requests p @ [Fetch url]\<rparr> in
      case fetch env url of
        FetchRejects e \<Rightarrow> (Inl e, p)
      | Response st txt b \<Rightarrow>
          if \<not> ok st then (Inl (new_Error (''HTTP '' @ show_nat st @ '': '' @ txt)), p)
          else (case b of BadJson e \<Rightarrow> (Inl e, p) | Json j \<Rightarrow> (Inr j, p)))"

definition fetchFromName :: "env \<Rightarrow> string \<Rightarrow> page \<Rightarrow> (js_error + json) \<times> page" where
  "fetchFromName env configName p =
     (let p = p\<lparr>requests := requests p @ [Fetch (''config/'' @ configName @ ''.json'')]\<rparr> in
      case fetch env (''config/'' @ configName @ ''.json'') of
        FetchRejects e \<Rightarrow> (Inl e, p)
      | Response st txt b \<Rightarrow>
          if \<not> ok st then
            (if st = 404 then
               (Inl (new_Error (''Config file '' @ sq @ configName @ ''.json'' @ sq @ '' not found'')), p)
             else (Inl (new_Error (''HTTP '' @ show_nat st @ '': '' @ txt)), p))
          else (case b of BadJson e \<Rightarrow> (Inl e, p) | Json j \<Rightarrow> (Inr j, p)))"

definition fetchConfigFromUrlOrName :: "env \<Rightarrow> page \<Rightarrow> (js_error + json) \<times> page" where
  "fetchConfigFromUrlOrName env p =
     (let urlParams = getUrlParams env;
          configUrl = params_get urlParams ''configUrl'';
          configName = (case params_get urlParams ''configName'' of
                          None \<Rightarrow> ''card-flip''
                        | Some n \<Rightarrow> if n \<noteq> [] then n else ''card-flip'');
          (r, p) = (case configUrl of
                      None \<Rightarrow> fetchFromName env configName p
                    | Some url \<Rightarrow>
                        if url \<noteq> [] then fetchFromUrl env url p
                        else fetchFromName env configName p)
      in case r of
           Inl error \<Rightarrow>
             (Inl (new_ConfigError (''Failed to load configuration: '' @ message error)
                     (type_tag error)), p)
         | Inr config \<Rightarrow> (Inr config, p))"

text \<open>
  \<^verbatim>\<open>required.filter(field => !config[field])\<close>: reading a field of \<^verbatim>\<open>null\<close> throws
  out of the filter.
\<close>

fun missing_fields :: "engine \<Rightarrow> json \<Rightarrow> string list \<Rightarrow> js_error + string list" where
  "missing_fields eng config [] = Inr []"
| "missing_fields eng config (field # rest) =
     (case get_prop eng config field of
        Inl e \<Rightarrow> Inl e
      | Inr v \<Rightarrow>
          (case missing_fields eng config rest of
             Inl e \<Rightarrow> Inl e
           | Inr ms \<Rightarrow> Inr (if \<not> truthy_val v then field # ms else ms)))"

definition validateConfig :: "engine \<Rightarrow> json \<Rightarrow> js_error + bool" where
  "validateConfig eng config =
     (let required = [''gameType''] in
      case missing_fields eng config required of
        Inl e \<Rightarrow> Inl e
      | Inr missing \<Rightarrow>
          if length missing > 0 then
            Inl (new_Error (''Missing required config fields: '' @ join '', '' missing))
          else Inr True)"

subsection \<open>ThemeManager\<close>

text \<open>A settled promise.\<close>

datatype 'a settled = Fulfilled 'a | Rejected js_error

text \<open>
  \<^verbatim>\<open>Promise.all\<close>: fulfilled with all the values when every promise is fulfilled,
  rejected as soon as one is rejected.
\<close>

fun Promise_all :: "'a settled list \<Rightarrow> 'a list settled" where
  "Promise_all [] = Fulfilled []"
| "Promise_all (Rejected e # ps) = Rejected e"
| "Promise_all (Fulfilled x # ps) =
     (case Promise_all ps of Fulfilled xs \<Rightarrow> Fulfilled (x # xs) | Rejected e \<Rightarrow> Rejected e)"

text \<open>
  \<^verbatim>\<open>setBackground\<close> converts the theme name first: when that throws, nothing is
  assigned.
\<close>

definition setBackground :: "engine \<Rightarrow> json option \<Rightarrow> page \<Rightarrow> js_error + page" where
  "setBackground eng themeName p =
     (case String_val eng themeName of
        Inl e \<Rightarrow> Inl e
      | Inr theme \<Rightarrow>
          let bgUrl = ''assets/themes/'' @ theme @ ''/bg.png'' in
          Inr (p\<lparr>body_style := (body_style p)
                 (''backgroundImage'' \<mapsto> ''url('' @ sq @ bgUrl @ sq @ '')'',
                  ''backgroundSize'' \<mapsto> ''cover'',
                  ''backgroundPosition'' \<mapsto> ''center'',
                  ''backgroundRepeat'' \<mapsto> ''no-repeat'')\<rparr>))"

definition setCardBack :: "engine \<Rightarrow> json option \<Rightarrow> page \<Rightarrow> js_error + page" where
  "setCardBack eng themeName p =
     (case String_val eng themeName of
        Inl e \<Rightarrow> Inl e
      | Inr theme \<Rightarrow>
          let cardBackUrl =
                ''url('' @ sq @ ''assets/themes/'' @ theme @ ''/card-back.png'' @ sq @ '')''
          in Inr (p\<lparr>root_style := (root_style p)(''--card-back'' \<mapsto> cardBackUrl)\<rparr>))"

text \<open>
  The promise made for one image: \<^verbatim>\<open>img.onload = img.onerror = () => resolve()\<close>.
\<close>

definition preload_promise :: "image_outcome \<Rightarrow> unit settled" where
  "preload_promise outcome =
     (case outcome of Loaded \<Rightarrow> Fulfilled () | LoadFailed \<Rightarrow> Fulfilled ())"

text \<open>
  \<^verbatim>\<open>preloadThemeAssets\<close> gives how its promise settles, the image requests it issues
  (at once, when \<^verbatim>\<open>img.src\<close> is set) and what it writes to the console after the join.
  The list of assets is built before the \<^verbatim>\<open>try\<close>: when the conversion of the theme
  name throws there, the promise is rejected and nothing else happens.
\<close>

definition preloadThemeAssets ::
    "env \<Rightarrow> json option \<Rightarrow> unit settled \<times> request list \<times> console_entry list" where
  "preloadThemeAssets env themeName =
     (case String_val (js_engine env) themeName of
        Inl e \<Rightarrow> (Rejected e, [], [])
      | Inr theme \<Rightarrow>
          let assets = [''assets/themes/'' @ theme @ ''/bg.png'',
                        ''assets/themes/'' @ theme @ ''/card-back.png''];
              preloadPromises = map (\<lambda>src. preload_promise (load_image env src)) assets
          in case Promise_all preloadPromises of
               Fulfilled _ \<Rightarrow>
                 (Fulfilled (), map ImageLoad assets,
                  [Log (''Theme '' @ sq @ theme @ sq @ '' assets preloaded'')])
             | Rejected error \<Rightarrow>
                 (Fulfilled (), map ImageLoad assets,
                  [Warn ''Some theme assets failed to preload:'' (Some error)]))"

text \<open>
  \<^verbatim>\<open>applyTheme\<close> gives the error it throws, if any, and the page as it leaves it. It
  starts the preload and does not wait for it, so a rejected preload is not thrown.
\<close>

definition applyTheme :: "env \<Rightarrow> json option \<Rightarrow> page \<Rightarrow> js_error option \<times> page" where
  "applyTheme env themeName p =
     (if \<not> truthy_val themeName then
        (None,
         p\<lparr>console := console p @ [Warn ''No theme specified, using default styling'' None]\<rparr>)
      else
        case setBackground (js_engine env) themeName p of
          Inl e \<Rightarrow> (Some e, p)
        | Inr p \<Rightarrow>
        (case setCardBack (js_engine env) themeName p of
          Inl e \<Rightarrow> (Some e, p)
        | Inr p \<Rightarrow>
            let (settled, reqs, out) = preloadThemeAssets env themeName
            in (None, p\<lparr>requests := requests p @ reqs, deferred := deferred p @ out\<rparr>)))"

subsection \<open>GameManager\<close>

text \<open>
  The module path is built before the \<^verbatim>\<open>try\<close>: when the conversion of the game type
  throws, that error is thrown and nothing is imported.
\<close>

definition loadGameModule :: "env \<Rightarrow> json option \<Rightarrow> page \<Rightarrow> (js_error + game) \<times> page" where
  "loadGameModule env gameType p =
     (case String_val (js_engine env) gameType of
        Inl e \<Rightarrow> (Inl e, p)
      | Inr gt \<Rightarrow>
          let modulePath = ''./games/'' @ gt @ ''.js'';
              p = p\<lparr>requests := requests p @ [Import modulePath]\<rparr>;
              attempt =
                (case import_module env modulePath of
                   ImportRejects e \<Rightarrow> Inl e
                 | Module None \<Rightarrow>
                     Inl (new_Error (''Game module '' @ sq @ gt @ sq
                                       @ '' missing startGame function''))
                 | Module (Some g) \<Rightarrow> Inr g)
          in case attempt of
               Inl error \<Rightarrow>
                 if str_includes (message error) ''Failed to resolve module'' then
                   (Inl (new_Error (''Game module '' @ sq @ gt @ ''.js'' @ sq
                                       @ '' not found'')), p)
                 else (Inl error, p)
             | Inr g \<Rightarrow> (Inr g, p))"

definition initializeGame :: "env \<Rightarrow> game \<Rightarrow> json \<Rightarrow> page \<Rightarrow> (js_error + unit) \<times> page" where
  "initializeGame env g config p =
     (let (c, thrown) = g config (set_innerHTML [] (container p));
          p = p\<lparr>container := c\<rparr>;
          attempt =
            (case thrown of
               Some e \<Rightarrow> Inl e
             | None \<Rightarrow>
                 (case get_prop (js_engine env) config ''gameType'' of
                    Inl e \<Rightarrow> Inl e
                  | Inr gameType \<Rightarrow>
                      (case String_val (js_engine env) gameType of
                         Inl e \<Rightarrow> Inl e
                       | Inr gt \<Rightarrow>
                           Inr (Log (''Game '' @ sq @ gt @ sq
                                       @ '' initialized successfully'')))))
      in case attempt of
           Inl error \<Rightarrow>
             (Inl (new_Error (''Failed to initialize game: '' @ message error)), p)
         | Inr entry \<Rightarrow> (Inr (), p\<lparr>console := console p @ [entry]\<rparr>))"

subsection \<open>UIManager\<close>

text \<open>
  The markup written into the container, line breaks and indentation as in the
  template literals. The game-pad emoji of the heading is its four UTF-8 bytes.
\<close>

definition error_markup :: "string \<Rightarrow> string option \<Rightarrow> string" where
  \<open>error_markup msg details =
     (let detailsHtml =
        (case details of
           None \<Rightarrow> []
         | Some d \<Rightarrow>
             if d \<noteq> [] then
               ''<details><summary>Technical Details</summary><pre>'' @ d @ ''</pre></details>''
             else [])
      in nl @ ''      <div class="loader-message error">'' @ nl
         @ ''        <h3>'' @ [CHR 0xF0, CHR 0x9F, CHR 0x8E, CHR 0xAE]
         @ '' Oops! Something went wrong</h3>'' @ nl
         @ ''        <p>'' @ msg @ ''</p>'' @ nl
         @ ''        '' @ detailsHtml @ nl
         @ ''        <button onclick="location.reload()" class="retry-button">Try Again</button>'' @ nl
         @ ''      </div>'' @ nl
         @ ''    '')\<close>

definition showError :: "string \<Rightarrow> string option \<Rightarrow> page \<Rightarrow> page" where
  "showError msg details p =
     p\<lparr>container := set_innerHTML (error_markup msg details) (container p)\<rparr>"

definition loading_markup :: "string \<Rightarrow> string" where
  \<open>loading_markup msg =
     nl @ ''      <div class="loader-message">'' @ nl
     @ ''        <div class="spinner"></div>'' @ nl
     @ ''        <p>'' @ msg @ ''</p>'' @ nl
     @ ''      </div>'' @ nl
     @ ''    ''\<close>

definition showLoading :: "string \<Rightarrow> page \<Rightarrow> page" where
  "showLoading msg p =
     p\<lparr>container := set_innerHTML (loading_markup msg) (container p)\<rparr>"

subsection \<open>GameLoader\<close>

text \<open>The message the \<^verbatim>\<open>catch\<close> block of \<^verbatim>\<open>initialize\<close> chooses for an error.\<close>

definition userMessage :: "js_error \<Rightarrow> string" where
  "userMessage error =
     (if cls error = ConfigError then
        ''Game configuration error. Please check the game settings.''
      else if str_includes (message error) ''not found'' then
        ''Game files are missing. Please check the installation.''
      else if str_includes (message error) ''network'' then
        ''Network error. Please check your connection and try again.''
      else ''Failed to load game. Please try again.'')"

text \<open>The \<^verbatim>\<open>catch\<close> block.\<close>

definition on_error :: "js_error \<Rightarrow> page \<Rightarrow> page" where
  "on_error error p =
     showError (userMessage error) (Some (message error))
       (p\<lparr>console := console p @ [ConsoleError ''Game loader error:'' error]\<rparr>)"

text \<open>
  The \<^verbatim>\<open>try\<close> block: the page when the block ends, and the error that ended it, if
  any.
\<close>

definition try_block :: "env \<Rightarrow> page \<Rightarrow> js_error option \<times> page" where
  "try_block env p =
     (let p = showLoading ''Loading configuration...'' p in
      case fetchConfigFromUrlOrName env p of
        (Inl e, p) \<Rightarrow> (Some e, p)
      | (Inr config, p) \<Rightarrow>
      (case validateConfig (js_engine env) config of
        Inl e \<Rightarrow> (Some e, p)
      | Inr _ \<Rightarrow>
      (let p = showLoading ''Applying theme...'' p in
       case get_prop (js_engine env) config ''theme'' of
        Inl e \<Rightarrow> (Some e, p)
      | Inr theme \<Rightarrow>
      (case applyTheme env theme p of
        (Some e, p) \<Rightarrow> (Some e, p)
      | (None, p) \<Rightarrow>
      (let p = showLoading ''Loading game module...'' p in
       case get_prop (js_engine env) config ''gameType'' of
        Inl e \<Rightarrow> (Some e, p)
      | Inr gameType \<Rightarrow>
      (case loadGameModule env gameType p of
        (Inl e, p) \<Rightarrow> (Some e, p)
      | (Inr gameModule, p) \<Rightarrow>
      (let p = showLoading ''Initializing game...'' p in
       case initializeGame env gameModule config p of
        (Inl e, p) \<Rightarrow> (Some e, p)
      | (Inr _, p) \<Rightarrow> (None, p))))))))"

definition initialize :: "env \<Rightarrow> page \<Rightarrow> page" where
  "initialize env p =
     (case try_block env p of
        (None, p) \<Rightarrow> p
      | (Some error, p) \<Rightarrow> on_error error p)"

section \<open>admin/editor.js: StorageUtils\<close>

text \<open>
  \<^verbatim>\<open>JSON.stringify\<close> and \<^verbatim>\<open>JSON.parse\<close> belong to the engine, so they are parameters,
  over any type \<open>'v\<close> of values. \<^verbatim>\<open>JSON.stringify\<close> returns a text, returns
  \<^verbatim>\<open>undefined\<close> (for \<^verbatim>\<open>undefined\<close>, a function, a symbol) or throws (a cycle, a
  BigInt); \<^verbatim>\<open>JSON.parse\<close> returns a value or throws.
\<close>

datatype stringify_result = JsonText string | NoText | StringifyThrows js_error

record 'v json_api =
  stringify :: "'v \<Rightarrow> stringify_result"
  parse :: "string \<Rightarrow> js_error + 'v"

text \<open>
  The \<^verbatim>\<open>Map\<close> \<^verbatim>\<open>_storage\<close> in insertion order, \<open>None\<close> being a stored
  \<^verbatim>\<open>undefined\<close>, and the warnings written to the console.
\<close>

record 'k storage_utils =
  storage :: "('k \<times> string option) list"
  warnings :: "console_entry list"

definition new_storage :: "'k storage_utils" where
  "new_storage = \<lparr>storage = [], warnings = []\<rparr>"

definition setItem :: "'v json_api \<Rightarrow> 'k \<Rightarrow> 'v \<Rightarrow> 'k storage_utils \<Rightarrow> 'k storage_utils" where
  "setItem api key val st =
     (case stringify api val of
        JsonText s \<Rightarrow> st\<lparr>storage := AList.update key (Some s) (storage st)\<rparr>
      | NoText \<Rightarrow> st\<lparr>storage := AList.update key None (storage st)\<rparr>
      | StringifyThrows error \<Rightarrow>
          st\<lparr>warnings := warnings st @ [Warn ''Storage failed:'' (Some error)]\<rparr>)"

definition getItem ::
    "'v json_api \<Rightarrow> 'k \<Rightarrow> 'v \<Rightarrow> 'k storage_utils \<Rightarrow> 'v \<times> 'k storage_utils" where
  "getItem api key defaultValue st =
     (case map_of (storage st) key of
        None \<Rightarrow> (defaultValue, st)
      | Some None \<Rightarrow> (defaultValue, st)
      | Some (Some s) \<Rightarrow>
          if s = [] then (defaultValue, st)
          else (case parse api s of
                  Inr v \<Rightarrow> (v, st)
                | Inl error \<Rightarrow>
                    (defaultValue,
                     st\<lparr>warnings := warnings st
                          @ [Warn ''Storage retrieval failed:'' (Some error)]\<rparr>)))"

definition removeItem :: "'k \<Rightarrow> 'k storage_utils \<Rightarrow> 'k storage_utils" where
  "removeItem key st = st\<lparr>storage := AList.delete key (storage st)\<rparr>"

definition clear :: "'k storage_utils \<Rightarrow> 'k storage_utils" where
  "clear st = st\<lparr>storage := []\<rparr>"

definition keys :: "'k storage_utils \<Rightarrow> 'k list" where
  "keys st = map fst (storage st)"

text \<open>A sequence of calls on the one \<^verbatim>\<open>StorageUtils\<close> object.\<close>

datatype ('k, 'v) storage_call = SetItem 'k 'v | GetItem 'k 'v | RemoveItem 'k | Clear | Keys

fun call :: "'v json_api \<Rightarrow> ('k, 'v) storage_call \<Rightarrow> 'k storage_utils \<Rightarrow> 'k storage_utils" where
  "call api (SetItem k v) st = setItem api k v st"
| "call api (GetItem k d) st = snd (getItem api k d st)"
| "call api (RemoveItem k) st = removeItem k st"
| "call api Clear st = clear st"
| "call api Keys st = st"

fun calls :: "'v json_api \<Rightarrow> ('k, 'v) storage_call list \<Rightarrow> 'k storage_utils \<Rightarrow> 'k storage_utils" where
  "calls api [] st = st"
| "calls api (c # cs) st = calls api cs (call api c st)"

fun sets_key :: "'k \<Rightarrow> ('k, 'v) storage_call \<Rightarrow> bool" where
  "sets_key key (SetItem k v) = (k = key)"
| "sets_key key c = False"

text \<open>
  A value is JSON-serializable when \<^verbatim>\<open>JSON.stringify\<close> gives a JSON text for it (a
  JSON text is never empty) that \<^verbatim>\<open>JSON.parse\<close> reads back as the same value.
\<close>

definition json_serializable :: "'v json_api \<Rightarrow> 'v \<Rightarrow> bool" where
  "json_serializable api v =
     (case stringify api v of
        JsonText s \<Rightarrow> s \<noteq> [] \<and> parse api s = Inr v
      | NoText \<Rightarrow> False
      | StringifyThrows e \<Rightarrow> False)"

section \<open>What the properties are stated with\<close>

text \<open>The own property \<open>k\<close> of a JSON value, \<^verbatim>\<open>undefined\<close> when it has none.\<close>

definition own :: "json \<Rightarrow> string \<Rightarrow> json option" where
  "own v k = (case v of JObj kv \<Rightarrow> map_of kv k | _ \<Rightarrow> None)"

text \<open>The HTML entity of a character that has one.\<close>

definition html_entity :: "char \<Rightarrow> string" where
  "html_entity c =
     (if c = CHR ''&'' then ''&amp;''
      else if c = CHR 0x22 then ''&quot;''
      else if c = CHR ''<'' then ''&lt;''
      else if c = CHR ''>'' then ''&gt;''
      else [c])"

text \<open>
  The card element expected for an entry of \<^verbatim>\<open>config.cards\<close> whose id reads
  \<open>id_text\<close> and whose message reads \<open>message_text\<close>: the id in the \<^verbatim>\<open>data-id\<close>
  attribute, the message with its entities in the front face.
\<close>

definition expected_card :: "string \<Rightarrow> string \<Rightarrow> element" where
  \<open>expected_card id_text message_text =
     Element ''div'' ''card'' [(''data-id'', id_text)] [] [''click'']
       [Elem (Element ''div'' ''card-inner'' [] [] []
          [Elem (Element ''div'' ''card-face card-back'' [] [] [] []),
           Elem (Element ''div'' ''card-face card-front'' [] [] []
             [Markup (''<div class="card-text">'' @ concat (map html_entity message_text)
                        @ ''</div>'')])])]\<close>

text \<open>
  The steps of \<^verbatim>\<open>GameLoader.initialize\<close> on a page \<open>p\<close>, each with the
  \<^verbatim>\<open>showLoading\<close> call that opens it and each run on the page the step before left:
  fetching the configuration, applying the theme, loading the module, and initializing
  the game.
\<close>

definition fetched :: "env \<Rightarrow> page \<Rightarrow> (js_error + json) \<times> page" where
  "fetched env p = fetchConfigFromUrlOrName env (showLoading ''Loading configuration...'' p)"

definition themed :: "env \<Rightarrow> json \<Rightarrow> page \<Rightarrow> js_error option \<times> page" where
  "themed env config p =
     applyTheme env (own config ''theme'') (showLoading ''Applying theme...'' (snd (fetched env p)))"

definition loaded :: "env \<Rightarrow> json \<Rightarrow> page \<Rightarrow> (js_error + game) \<times> page" where
  "loaded env config p =
     loadGameModule env (own config ''gameType'')
       (showLoading ''Loading game module...'' (snd (themed env config p)))"

definition started :: "env \<Rightarrow> game \<Rightarrow> json \<Rightarrow> page \<Rightarrow> (js_error + unit) \<times> page" where
  "started env g config p =
     initializeGame env g config (showLoading ''Initializing game...'' (snd (loaded env config p)))"

subsection \<open>A sample site\<close>

text \<open>The error texts of V8.\<close>

definition v8 :: engine where
  "v8 = \<lparr>null_read = (\<lambda>k. ''Cannot read properties of null (reading '' @ sq @ k @ sq @ '')''),
          no_forEach = (\<lambda>v. case v of
              None \<Rightarrow> ''Cannot read properties of undefined (reading '' @ sq @ ''forEach'' @ sq @ '')''
            | Some JNull \<Rightarrow> ''Cannot read properties of null (reading '' @ sq @ ''forEach'' @ sq @ '')''
            | Some _ \<Rightarrow> ''config.cards.forEach is not a function''),
          no_primitive = ''Cannot convert object to primitive value''\<rparr>"

definition sample_config :: json where
  "sample_config =
     JObj [(''gameType'', JStr ''card-flip''),
           (''theme'', JStr ''ocean''),
           (''cards'', JArr [JObj [(''id'', JNum ''1''), (''frontImage'', JStr ''a.png''),
                                   (''message'', JStr ''Hi'')],
                             JObj [(''id'', JNum ''2''), (''frontImage'', JStr ''b.png''),
                                   (''message'', JStr ''Tom & <Jerry>'')]])]"

text \<open>
  A server with a good configuration, one without \<open>gameType\<close>, one with an empty
  \<open>gameType\<close>, one that is no JSON, one whose theme is an object with a \<open>toString\<close>
  property, some that name other game types, one address that fails with status 500,
  and 404 for everything else.
\<close>

definition sample_fetch :: "string \<Rightarrow> fetch_result" where
  "sample_fetch url =
     (if url = ''config/card-flip.json'' \<or> url = ''https://example.org/preview.json'' then
        Response 200 ''OK'' (Json sample_config)
      else if url = ''config/no-type.json'' then
        Response 200 ''OK'' (Json (JObj [(''theme'', JStr ''ocean''), (''cards'', JArr [])]))
      else if url = ''config/empty-type.json'' then
        Response 200 ''OK'' (Json (JObj [(''gameType'', JStr []), (''cards'', JArr [])]))
      else if url = ''config/broken.json'' then
        Response 200 ''OK'' (BadJson (Thrown SyntaxError ''Unexpected end of JSON input'' None))
      else if url = ''config/down.json'' then
        Response 500 ''Internal Server Error''
          (BadJson (Thrown SyntaxError ''Unexpected token < in JSON at position 0'' None))
      else if url = ''config/ghost.json'' then
        Response 200 ''OK'' (Json (JObj [(''gameType'', JStr ''ghost'')]))
      else if url = ''config/hollow.json'' then
        Response 200 ''OK'' (Json (JObj [(''gameType'', JStr ''hollow'')]))
      else if url = ''config/no-cards.json'' then
        Response 200 ''OK'' (Json (JObj [(''gameType'', JStr ''card-flip'')]))
      else if url = ''config/tangled.json'' then
        Response 200 ''OK'' (Json (JObj [(''gameType'', JStr ''tangled'')]))
      else if url = ''config/odd-theme.json'' then
        Response 200 ''OK''
          (Json (JObj [(''gameType'', JStr ''card-flip''),
                       (''theme'', JObj [(''toString'', JNum ''1'')]),
                       (''cards'', JArr [])]))
      else
        Response 404 ''Not Found''
          (BadJson (Thrown SyntaxError ''Unexpected token < in JSON at position 0'' None)))"

text \<open>
  Its modules: card-flip, a module without \<^verbatim>\<open>startGame\<close>, a module that imports a
  package by a bare name (the browser rejects the import with the text of an unresolved
  specifier), and nothing else (the browser rejects the import of a file it cannot
  fetch).
\<close>

definition sample_import :: "string \<Rightarrow> import_result" where
  \<open>sample_import path =
     (if path = ''./games/card-flip.js'' then Module (Some (startGame v8))
      else if path = ''./games/hollow.js'' then Module None
      else if path = ''./games/tangled.js'' then
        ImportRejects
          (Thrown TypeError
             (''Failed to resolve module specifier "lodash". ''
                @ ''Relative references must start with either "/", "./", or "../".'') None)
      else
        ImportRejects
          (Thrown TypeError
             (''Failed to fetch dynamically imported module: https://example.org/games/''
                @ drop 8 path) None))\<close>

definition sample_images :: "string \<Rightarrow> image_outcome" where
  "sample_images src = (if src = ''assets/themes/ocean/bg.png'' then Loaded else LoadFailed)"

definition sample_env :: "(string \<times> string) list \<Rightarrow> env" where
  "sample_env q =
     \<lparr>js_engine = v8, query = q, fetch = sample_fetch, import_module = sample_import,
      load_image = sample_images\<rparr>"

definition blank_page :: page where
  "blank_page =
     \<lparr>body_style = Map.empty, root_style = Map.empty,
      container = Element ''div'' [] [(''id'', ''game-container'')] [] [] [],
      console = [], deferred = [], requests = []\<rparr>"

text \<open>\<^verbatim>\<open>JSON.stringify\<close> and \<^verbatim>\<open>JSON.parse\<close> cut down to the three literals.\<close>

definition literal_stringify :: "json \<Rightarrow> stringify_result" where
  "literal_stringify v =
     (case v of
        JNull \<Rightarrow> JsonText ''null''
      | JBool b \<Rightarrow> JsonText (if b then ''true'' else ''false'')
      | _ \<Rightarrow> NoText)"

definition literal_parse :: "string \<Rightarrow> js_error + json" where
  "literal_parse s =
     (if s = ''null'' then Inr JNull
      else if s = ''true'' then Inr (JBool True)
      else if s = ''false'' then Inr (JBool False)
      else Inl (Thrown SyntaxError ''Unexpected token'' None))"

definition literal_api :: "json json_api" where
  "literal_api = \<lparr>stringify = literal_stringify, parse = literal_parse\<rparr>"

section \<open>Properties of games/card-flip.js\<close>

lemma String_val_string [simp]: "String_val eng (Some (JStr s)) = Inr s"
  by (simp add: String_val_def)

lemma replace_all_append:
  "replace_all c r (xs @ ys) = replace_all c r xs @ replace_all c r ys"
  by (induction xs) simp_all

lemma escape_chars:
  "replace_all (CHR ''>'') ''&gt;''
     (replace_all (CHR ''<'') ''&lt;''
       (replace_all (CHR 0x22) ''&quot;''
         (replace_all (CHR ''&'') ''&amp;'' s))) = concat (map html_entity s)"
  by (induction s) (simp_all add: html_entity_def replace_all_append)

lemma html_entity_safe: "set (html_entity c) \<inter> {CHR ''<'', CHR ''>'', CHR 0x22} = {}"
  by (simp add: html_entity_def)

lemma entities_safe: "set (concat (map html_entity s)) \<inter> {CHR ''<'', CHR ''>'', CHR 0x22} = {}"
  using html_entity_safe by fastforce

lemma escapeHtml_eq:
  "escapeHtml eng msg =
     (case String_val eng msg of Inl e \<Rightarrow> Inl e | Inr s \<Rightarrow> Inr (concat (map html_entity s)))"
  by (simp add: escapeHtml_def escape_chars split: sum.splits)

lemma get_prop_own: "config \<noteq> JNull \<Longrightarrow> get_prop eng config k = Inr (own config k)"
  by (cases config) (simp_all add: own_def)

lemma makeCard_eq:
  "makeCard eng c =
     (if c = JNull then Inl (Thrown TypeError (null_read eng ''id'') None)
      else case String_val eng (own c ''id'') of
             Inl e \<Rightarrow> Inl e
           | Inr id_text \<Rightarrow>
               (case String_val eng (own c ''message'') of
                  Inl e \<Rightarrow> Inl e
                | Inr message_text \<Rightarrow> Inr (expected_card id_text message_text)))"
  by (cases "c = JNull")
     (simp_all add: makeCard_def get_prop_own escapeHtml_eq expected_card_def createElement_def
        Let_def split: sum.splits)

lemma forEach_cards_ok:
  "\<forall>c\<in>set cs. c \<noteq> JNull \<and> String_val eng (own c ''id'') = Inr (id_of c)
                 \<and> String_val eng (own c ''message'') = Inr (message_of c) \<Longrightarrow>
   forEach_cards eng cs w =
     Inr (Element (tag w) (className w) (attrs w) (styles w) (listeners w)
            (kids w @ map (\<lambda>c. Elem (expected_card (id_of c) (message_of c))) cs))"
proof (induction cs arbitrary: w)
  case Nil
  then show ?case by simp
next
  case (Cons c cs)
  then show ?case by (cases w) (simp add: makeCard_eq)
qed

text \<open>
  Claim C9. For every card message string \<open>m\<close>, \<open>escapeHtml\<close> returns \<open>m\<close> with every
  \<open>&\<close>, \<open>"\<close>, \<open><\<close> and \<open>>\<close> replaced by its entity and every other character kept. For
  any message at all, \<open>escapeHtml\<close> either throws the error of the string conversion or
  returns the converted string with its entities, and what it returns holds no \<open><\<close>,
  \<open>>\<close> or \<open>"\<close>. Whenever a card element is made for an entry, the markup assigned to
  its front face is the fixed wrapper around what \<open>escapeHtml\<close> returned for the entry's
  message; and a card is made for every entry that is not \<^verbatim>\<open>null\<close>, whose id converts
  to a string and whose message is a string.
\<close>

theorem escapeHtml_no_raw_markup:
  \<open>escapeHtml eng msg =
      (case String_val eng msg of
         Inl e \<Rightarrow> Inl e
       | Inr s \<Rightarrow> Inr (concat (map html_entity s)))
   \<and> escapeHtml eng (Some (JStr m)) = Inr (concat (map html_entity m))
   \<and> (escapeHtml eng msg = Inr out \<longrightarrow> set out \<inter> {CHR ''<'', CHR ''>'', CHR 0x22} = {})
   \<and> (makeCard eng cardData = Inr card_el \<longrightarrow>
        (\<exists>inner back escaped.
           escapeHtml eng (own cardData ''message'') = Inr escaped
           \<and> kids card_el = [Elem inner]
           \<and> kids inner =
               [Elem back,
                Elem (Element ''div'' ''card-face card-front'' [] [] []
                       [Markup (''<div class="card-text">'' @ escaped @ ''</div>'')])]))
   \<and> (cardData \<noteq> JNull \<and> String_val eng (own cardData ''id'') = Inr id_text
        \<and> own cardData ''message'' = Some (JStr m) \<longrightarrow>
        makeCard eng cardData = Inr (expected_card id_text m))\<close>
proof -
  have A: "escapeHtml eng msg =
      (case String_val eng msg of
         Inl e \<Rightarrow> Inl e
       | Inr s \<Rightarrow> Inr (concat (map html_entity s)))"
    by (rule escapeHtml_eq)
  have B: "escapeHtml eng (Some (JStr m)) = Inr (concat (map html_entity m))"
    by (simp add: escapeHtml_eq)
  have C: "escapeHtml eng msg = Inr out \<longrightarrow> set out \<inter> {CHR ''<'', CHR ''>'', CHR 0x22} = {}"
    using entities_safe by (auto simp: escapeHtml_eq split: sum.splits)
  have D: \<open>makeCard eng cardData = Inr card_el \<longrightarrow>
        (\<exists>inner back escaped.
           escapeHtml eng (own cardData ''message'') = Inr escaped
           \<and> kids card_el = [Elem inner]
           \<and> kids inner =
               [Elem back,
                Elem (Element ''div'' ''card-face card-front'' [] [] []
                       [Markup (''<div class="card-text">'' @ escaped @ ''</div>'')])])\<close>
    by (auto simp: makeCard_eq escapeHtml_eq expected_card_def split: if_splits sum.splits)
  have E: "cardData \<noteq> JNull \<and> String_val eng (own cardData ''id'') = Inr id_text
        \<and> own cardData ''message'' = Some (JStr m) \<longrightarrow>
        makeCard eng cardData = Inr (expected_card id_text m)"
    by (simp add: makeCard_eq)
  show ?thesis
    by (intro conjI A B C D E)
qed


theorem escapeHtml_no_raw_markup_witness:
  \<open>escapeHtml v8 (Some (JStr ''<b>"A&B"</b>'')) = Inr ''&lt;b&gt;&quot;A&amp;B&quot;&lt;/b&gt;''
   \<and> set ''&lt;b&gt;&quot;A&amp;B&quot;&lt;/b&gt;'' \<inter> {CHR ''<'', CHR ''>'', CHR 0x22} = {}
   \<and> makeCard v8 (JObj [(''id'', JNum ''7''), (''message'', JStr ''<b>"A&B"</b>'')])
       = Inr (expected_card ''7'' ''<b>"A&B"</b>'')
   \<and> (\<exists>inner back.
         kids (expected_card ''7'' ''<b>"A&B"</b>'') = [Elem inner]
         \<and> kids inner =
             [Elem back,
              Elem (Element ''div'' ''card-face card-front'' [] [] []
                     [Markup ''<div class="card-text">&lt;b&gt;&quot;A&amp;B&quot;&lt;/b&gt;</div>''])])\<close>
proof -
  let ?c = \<open>JObj [(''id'', JNum ''7''), (''message'', JStr ''<b>"A&B"</b>'')]\<close>
  note t = escapeHtml_no_raw_markup
             [of v8 \<open>Some (JStr ''<b>"A&B"</b>'')\<close> \<open>''<b>"A&B"</b>''\<close>
                 \<open>''&lt;b&gt;&quot;A&amp;B&quot;&lt;/b&gt;''\<close> ?c
                 \<open>expected_card ''7'' ''<b>"A&B"</b>''\<close> \<open>''7''\<close>]
  have e: \<open>escapeHtml v8 (Some (JStr ''<b>"A&B"</b>'')) = Inr ''&lt;b&gt;&quot;A&amp;B&quot;&lt;/b&gt;''\<close>
    using t by (simp add: html_entity_def)
  have s: \<open>set ''&lt;b&gt;&quot;A&amp;B&quot;&lt;/b&gt;'' \<inter> {CHR ''<'', CHR ''>'', CHR 0x22} = {}\<close>
    using t e by blast
  have h: \<open>?c \<noteq> JNull \<and> String_val v8 (own ?c ''id'') = Inr ''7''
             \<and> own ?c ''message'' = Some (JStr ''<b>"A&B"</b>'')\<close>
    by (simp add: own_def String_val_def)
  have m: \<open>makeCard v8 ?c = Inr (expected_card ''7'' ''<b>"A&B"</b>'')\<close>
    using t h by blast
  have o: \<open>own ?c ''message'' = Some (JStr ''<b>"A&B"</b>'')\<close>
    by (simp add: own_def)
  from t m have \<open>\<exists>inner back escaped.
           escapeHtml v8 (own ?c ''message'') = Inr escaped
           \<and> kids (expected_card ''7'' ''<b>"A&B"</b>'') = [Elem inner]
           \<and> kids inner =
               [Elem back,
                Elem (Element ''div'' ''card-face card-front'' [] [] []
                       [Markup (''<div class="card-text">'' @ escaped @ ''</div>'')])]\<close>
    by blast
  then have k: \<open>\<exists>inner back.
         kids (expected_card ''7'' ''<b>"A&B"</b>'') = [Elem inner]
         \<and> kids inner =
             [Elem back,
              Elem (Element ''div'' ''card-face card-front'' [] [] []
                     [Markup ''<div class="card-text">&lt;b&gt;&quot;A&amp;B&quot;&lt;/b&gt;</div>''])]\<close>
    unfolding o e by auto
  show ?thesis
    by (intro conjI e s m k)
qed

text \<open>
  Claim C7. For a configuration whose \<open>cards\<close> is a list of entries, none of them
  \<^verbatim>\<open>null\<close>, where the title and every entry's id and message convert to strings (as
  they do in a valid configuration, where they are strings and integers), \<open>startGame\<close>
  does not throw, and it leaves the container with two more children: a title, and then
  a wrapper whose children are exactly the card elements of the entries, one for each
  entry and in the order of the list, each with the entry's id as \<^verbatim>\<open>data-id\<close> and the
  entry's message in its front face.
\<close>

theorem startGame_one_card_per_entry:
  assumes "get_prop eng config ''cards'' = Inr (Some (JArr cards))"
    and "String_val eng (own config ''title'') = Inr title_text"
    and "\<forall>c\<in>set cards. c \<noteq> JNull \<and> String_val eng (own c ''id'') = Inr (id_of c)
                          \<and> String_val eng (own c ''message'') = Inr (message_of c)"
  shows "snd (startGame eng config box) = None
         \<and> kids (fst (startGame eng config box)) =
             kids box @
               [Elem (Element ''h2'' [] [] [(''textAlign'', ''center'')] []
                        (if (if truthy_val (own config ''title'') then title_text
                             else ''Card Flip'') = []
                         then []
                         else [Text (if truthy_val (own config ''title'') then title_text
                                     else ''Card Flip'')])),
                Elem (Element ''div'' ''cards-wrapper'' [] [] []
                        (map (\<lambda>c. Elem (expected_card (id_of c) (message_of c))) cards))]"
proof -
  from assms(1) obtain kv where kv: "config = JObj kv"
    by (cases config) simp_all
  have w: "forEach_cards eng cards (set_className ''cards-wrapper'' (createElement ''div''))
             = Inr (Element ''div'' ''cards-wrapper'' [] [] []
                      (map (\<lambda>c. Elem (expected_card (id_of c) (message_of c))) cards))"
    using forEach_cards_ok [OF assms(3)] by (simp add: createElement_def)
  have t: "String_val eng (map_of kv ''title'') = Inr title_text"
    using assms(2) by (simp add: kv own_def)
  show ?thesis
    using assms(1) w t
    by (cases box) (simp add: kv startGame_def Let_def own_def createElement_def)
qed

theorem startGame_one_card_per_entry_witness:
  "get_prop v8 sample_config ''cards''
     = Inr (Some (JArr [JObj [(''id'', JNum ''1''), (''frontImage'', JStr ''a.png''),
                              (''message'', JStr ''Hi'')],
                        JObj [(''id'', JNum ''2''), (''frontImage'', JStr ''b.png''),
                              (''message'', JStr ''Tom & <Jerry>'')]]))
   \<and> snd (startGame v8 sample_config (container blank_page)) = None
   \<and> kids (fst (startGame v8 sample_config (container blank_page))) =
        [Elem (Element ''h2'' [] [] [(''textAlign'', ''center'')] [] [Text ''Card Flip'']),
         Elem (Element ''div'' ''cards-wrapper'' [] [] []
                 [Elem (expected_card ''1'' ''Hi''),
                  Elem (expected_card ''2'' ''Tom & <Jerry>'')])]"
proof -
  let ?c1 = "JObj [(''id'', JNum ''1''), (''frontImage'', JStr ''a.png''),
                   (''message'', JStr ''Hi'')]"
  let ?c2 = "JObj [(''id'', JNum ''2''), (''frontImage'', JStr ''b.png''),
                   (''message'', JStr ''Tom & <Jerry>'')]"
  let ?id = "\<lambda>c. if c = ?c1 then ''1'' else ''2''"
  let ?msg = "\<lambda>c. if c = ?c1 then ''Hi'' else ''Tom & <Jerry>''"
  have c: "get_prop v8 sample_config ''cards'' = Inr (Some (JArr [?c1, ?c2]))"
    by (simp add: sample_config_def)
  have t: "String_val v8 (own sample_config ''title'') = Inr ''undefined''"
    by (simp add: sample_config_def own_def String_val_def)
  have f: "truthy_val (own sample_config ''title'') = False"
    by (simp add: sample_config_def own_def truthy_val_def)
  have e: "\<forall>c\<in>set [?c1, ?c2]. c \<noteq> JNull \<and> String_val v8 (own c ''id'') = Inr (?id c)
                          \<and> String_val v8 (own c ''message'') = Inr (?msg c)"
    by (simp add: own_def String_val_def)
  show ?thesis
    using c startGame_one_card_per_entry [OF c t e, of "container blank_page"] f
    by (simp add: blank_page_def)
qed

section \<open>Properties of ConfigManager\<close>

lemma fetchFromUrl_requests:
  "requests (snd (fetchFromUrl env url p)) = requests p @ [Fetch url]"
  by (simp add: fetchFromUrl_def Let_def split: fetch_result.splits body.splits)

lemma fetchFromName_requests:
  "requests (snd (fetchFromName env name p)) = requests p @ [Fetch (''config/'' @ name @ ''.json'')]"
  by (simp add: fetchFromName_def Let_def split: fetch_result.splits body.splits)

lemma fetchConfig_requests:
  "requests (snd (fetchConfigFromUrlOrName env p)) =
     requests p @
       [Fetch (case params_get (query env) ''configUrl'' of
                 Some u \<Rightarrow> if u \<noteq> [] then u
                           else ''config/'' @ (case params_get (query env) ''configName'' of
                                  None \<Rightarrow> ''card-flip''
                                | Some n \<Rightarrow> if n \<noteq> [] then n else ''card-flip'') @ ''.json''
               | None \<Rightarrow> ''config/'' @ (case params_get (query env) ''configName'' of
                                  None \<Rightarrow> ''card-flip''
                                | Some n \<Rightarrow> if n \<noteq> [] then n else ''card-flip'') @ ''.json'')]"
  using fetchFromUrl_requests fetchFromName_requests
  by (simp add: fetchConfigFromUrlOrName_def getUrlParams_def Let_def split_beta
           split: option.splits sum.splits)

text \<open>
  Claim C1, as the code has it. \<open>fetchConfigFromUrlOrName\<close> issues exactly one
  request. When the query string has a \<open>configUrl\<close> that is not empty, it fetches that
  URL and no named path. When \<open>configUrl\<close> is absent or empty and \<open>configName\<close> is
  absent or empty, it fetches \<open>config/card-flip.json\<close>. When \<open>configUrl\<close> is absent or
  empty and \<open>configName\<close> is not empty, it fetches \<open>config/<configName>.json\<close>.
\<close>

theorem fetch_source_policy:
  "(params_get (query env) ''configUrl'' = Some u \<and> u \<noteq> [] \<longrightarrow>
      requests (snd (fetchConfigFromUrlOrName env p)) = requests p @ [Fetch u])
   \<and> (params_get (query env) ''configUrl'' \<in> {None, Some []}
      \<and> params_get (query env) ''configName'' \<in> {None, Some []} \<longrightarrow>
      requests (snd (fetchConfigFromUrlOrName env p))
        = requests p @ [Fetch ''config/card-flip.json''])
   \<and> (params_get (query env) ''configUrl'' \<in> {None, Some []}
      \<and> params_get (query env) ''configName'' = Some n \<and> n \<noteq> [] \<longrightarrow>
      requests (snd (fetchConfigFromUrlOrName env p))
        = requests p @ [Fetch (''config/'' @ n @ ''.json'')])"
  by (auto simp: fetchConfig_requests)

theorem fetch_source_policy_witness:
  "requests (snd (fetchConfigFromUrlOrName
      (sample_env [(''configUrl'', ''https://example.org/preview.json''),
                   (''configName'', ''no-type'')]) blank_page))
     = [Fetch ''https://example.org/preview.json'']
   \<and> requests (snd (fetchConfigFromUrlOrName (sample_env []) blank_page))
     = [Fetch ''config/card-flip.json'']
   \<and> requests (snd (fetchConfigFromUrlOrName (sample_env [(''configName'', ''no-type'')])
        blank_page))
     = [Fetch ''config/no-type.json'']"
  using fetch_source_policy
          [of "sample_env [(''configUrl'', ''https://example.org/preview.json''),
                           (''configName'', ''no-type'')]"
              "''https://example.org/preview.json''" blank_page]
        fetch_source_policy [of "sample_env []" _ blank_page]
        fetch_source_policy [of "sample_env [(''configName'', ''no-type'')]" _ blank_page
                                "''no-type''"]
  by (simp add: params_get_def sample_env_def blank_page_def)

text \<open>
  As stated, claim C1 fails where a parameter is present and empty: with the query
  \<open>?configUrl=\<close> the parameter is there, and the loader fetches the default named
  path, not the URL given; with \<open>?configName=\<close> it fetches the default path, not
  \<open>config/.json\<close>.
\<close>

theorem empty_configUrl_counterexample:
  "params_get (query (sample_env [(''configUrl'', [])])) ''configUrl'' = Some []
   \<and> requests (snd (fetchConfigFromUrlOrName (sample_env [(''configUrl'', [])]) blank_page))
       = [Fetch ''config/card-flip.json'']
   \<and> params_get (query (sample_env [(''configName'', [])])) ''configUrl'' = None
   \<and> params_get (query (sample_env [(''configName'', [])])) ''configName'' = Some []
   \<and> requests (snd (fetchConfigFromUrlOrName (sample_env [(''configName'', [])]) blank_page))
       = [Fetch ''config/card-flip.json'']"
  by (simp add: fetchConfig_requests params_get_def sample_env_def blank_page_def)

lemma validateConfig_eq:
  "validateConfig eng config =
     (if config = JNull then Inl (Thrown TypeError (null_read eng ''gameType'') None)
      else if truthy_val (own config ''gameType'') then Inr True
      else Inl (new_Error ''Missing required config fields: gameType''))"
  by (cases config) (simp_all add: validateConfig_def own_def truthy_val_def)

text \<open>
  Claim C4, as the code has it. \<open>validateConfig\<close> throws exactly when \<open>gameType\<close> is
  absent from the configuration or present with a falsy value (the empty string,
  \<^verbatim>\<open>null\<close>, \<^verbatim>\<open>false\<close>, \<open>0\<close>); it returns \<^verbatim>\<open>true\<close> exactly when \<open>gameType\<close> is
  present and truthy. The error is the one listing \<open>gameType\<close> as missing, unless the
  configuration itself is \<^verbatim>\<open>null\<close>. The configuration is only read.
\<close>

theorem validateConfig_throws_iff:
  "((\<exists>e. validateConfig eng config = Inl e) \<longleftrightarrow> \<not> truthy_val (own config ''gameType''))
   \<and> (validateConfig eng config = Inr True \<longleftrightarrow> truthy_val (own config ''gameType''))
   \<and> (config \<noteq> JNull \<and> \<not> truthy_val (own config ''gameType'') \<longrightarrow>
        validateConfig eng config = Inl (new_Error ''Missing required config fields: gameType''))"
  by (auto simp: validateConfig_eq own_def truthy_val_def)

theorem validateConfig_throws_iff_witness:
  "validateConfig v8 sample_config = Inr True
   \<and> \<not> truthy_val (own (JObj [(''theme'', JStr ''ocean'')]) ''gameType'')
   \<and> validateConfig v8 (JObj [(''theme'', JStr ''ocean'')])
       = Inl (new_Error ''Missing required config fields: gameType'')
   \<and> \<not> truthy_val (own (JObj [(''gameType'', JNum ''0'')]) ''gameType'')
   \<and> validateConfig v8 (JObj [(''gameType'', JNum ''0'')])
       = Inl (new_Error ''Missing required config fields: gameType'')"
  using validateConfig_throws_iff [of v8 sample_config]
        validateConfig_throws_iff [of v8 "JObj [(''theme'', JStr ''ocean'')]"]
        validateConfig_throws_iff [of v8 "JObj [(''gameType'', JNum ''0'')]"]
  by (simp add: own_def truthy_val_def sample_config_def)

text \<open>
  As stated, claim C4 fails for a \<open>gameType\<close> that is present and empty:
  \<open>validateConfig\<close> throws although the field is there.
\<close>

theorem validateConfig_counterexample:
  "own (JObj [(''gameType'', JStr [])]) ''gameType'' = Some (JStr [])
   \<and> validateConfig v8 (JObj [(''gameType'', JStr [])])
       = Inl (new_Error ''Missing required config fields: gameType'')"
  by (simp add: validateConfig_eq own_def truthy_val_def)

section \<open>Properties of ThemeManager\<close>

lemma Promise_all_preload:
  "Promise_all (map (\<lambda>src. preload_promise (load_image env src)) assets)
     = Fulfilled (map (\<lambda>src. ()) assets)"
  by (induction assets) (simp_all add: preload_promise_def split: image_outcome.splits)

lemma preloadThemeAssets_eq:
  "preloadThemeAssets env themeName =
     (case String_val (js_engine env) themeName of
        Inl e \<Rightarrow> (Rejected e, [], [])
      | Inr name \<Rightarrow>
          (Fulfilled (),
           [ImageLoad (''assets/themes/'' @ name @ ''/bg.png''),
            ImageLoad (''assets/themes/'' @ name @ ''/card-back.png'')],
           [Log (''Theme '' @ sq @ name @ sq @ '' assets preloaded'')]))"
  unfolding preloadThemeAssets_def Let_def Promise_all_preload
  by (simp split: sum.splits)

lemma applyTheme_eq:
  "applyTheme env themeName p =
     (if \<not> truthy_val themeName then
        (None,
         p\<lparr>console := console p @ [Warn ''No theme specified, using default styling'' None]\<rparr>)
      else case String_val (js_engine env) themeName of
             Inl e \<Rightarrow> (Some e, p)
           | Inr name \<Rightarrow>
               (None,
                p\<lparr>body_style := (body_style p)
                      (''backgroundImage'' \<mapsto>
                         ''url('' @ sq @ ''assets/themes/'' @ name @ ''/bg.png'' @ sq @ '')'',
                       ''backgroundSize'' \<mapsto> ''cover'',
                       ''backgroundPosition'' \<mapsto> ''center'',
                       ''backgroundRepeat'' \<mapsto> ''no-repeat''),
                  root_style := (root_style p)
                      (''--card-back'' \<mapsto>
                         ''url('' @ sq @ ''assets/themes/'' @ name @ ''/card-back.png''
                           @ sq @ '')''),
                  requests := requests p
                      @ [ImageLoad (''assets/themes/'' @ name @ ''/bg.png''),
                         ImageLoad (''assets/themes/'' @ name @ ''/card-back.png'')],
                  deferred := deferred p
                      @ [Log (''Theme '' @ sq @ name @ sq @ '' assets preloaded'')]\<rparr>))"
  by (simp add: applyTheme_def setBackground_def setCardBack_def preloadThemeAssets_eq Let_def
           split: sum.splits)

text \<open>
  Claim C6. For every theme name (a string) and however each of the two image loads
  ends, the promise of \<open>preloadThemeAssets\<close> is fulfilled, after the two image requests
  and with the message of the success branch on the console, and \<open>applyTheme\<close> does not
  throw. The same holds of every value that converts to a string. Whatever the value
  is, neither \<open>preloadThemeAssets\<close> nor \<open>applyTheme\<close> depends on the outcomes of the
  image loads, and the branch that warns after the join is never taken; the promise is
  rejected only when the conversion of the value to a string throws, before any image
  is requested.
\<close>

theorem preload_always_fulfilled:
  "preloadThemeAssets env (Some (JStr name)) =
     (Fulfilled (),
      [ImageLoad (''assets/themes/'' @ name @ ''/bg.png''),
       ImageLoad (''assets/themes/'' @ name @ ''/card-back.png'')],
      [Log (''Theme '' @ sq @ name @ sq @ '' assets preloaded'')])
   \<and> fst (applyTheme env (Some (JStr name)) p) = None
   \<and> (String_val (js_engine env) themeName = Inr name \<longrightarrow>
        preloadThemeAssets env themeName =
          (Fulfilled (),
           [ImageLoad (''assets/themes/'' @ name @ ''/bg.png''),
            ImageLoad (''assets/themes/'' @ name @ ''/card-back.png'')],
           [Log (''Theme '' @ sq @ name @ sq @ '' assets preloaded'')]))
   \<and> (String_val (js_engine env) themeName = Inl e \<longrightarrow>
        preloadThemeAssets env themeName = (Rejected e, [], []))
   \<and> preloadThemeAssets (env\<lparr>load_image := outcomes\<rparr>) themeName
       = preloadThemeAssets env themeName
   \<and> applyTheme (env\<lparr>load_image := outcomes\<rparr>) themeName p = applyTheme env themeName p
   \<and> Warn ''Some theme assets failed to preload:'' w
       \<notin> set (snd (snd (preloadThemeAssets env themeName)))"
proof -
  have A: "preloadThemeAssets env (Some (JStr name)) =
     (Fulfilled (),
      [ImageLoad (''assets/themes/'' @ name @ ''/bg.png''),
       ImageLoad (''assets/themes/'' @ name @ ''/card-back.png'')],
      [Log (''Theme '' @ sq @ name @ sq @ '' assets preloaded'')])"
    by (simp add: preloadThemeAssets_eq)
  have B: "fst (applyTheme env (Some (JStr name)) p) = None"
    by (simp add: applyTheme_eq)
  have C: "String_val (js_engine env) themeName = Inr name \<longrightarrow>
        preloadThemeAssets env themeName =
          (Fulfilled (),
           [ImageLoad (''assets/themes/'' @ name @ ''/bg.png''),
            ImageLoad (''assets/themes/'' @ name @ ''/card-back.png'')],
           [Log (''Theme '' @ sq @ name @ sq @ '' assets preloaded'')])"
    by (simp add: preloadThemeAssets_eq)
  have D: "String_val (js_engine env) themeName = Inl e \<longrightarrow>
        preloadThemeAssets env themeName = (Rejected e, [], [])"
    by (simp add: preloadThemeAssets_eq)
  have E: "preloadThemeAssets (env\<lparr>load_image := outcomes\<rparr>) themeName
       = preloadThemeAssets env themeName"
    by (simp add: preloadThemeAssets_eq)
  have F: "applyTheme (env\<lparr>load_image := outcomes\<rparr>) themeName p = applyTheme env themeName p"
    by (simp add: applyTheme_eq)
  have G: "Warn ''Some theme assets failed to preload:'' w
       \<notin> set (snd (snd (preloadThemeAssets env themeName)))"
    by (simp add: preloadThemeAssets_eq split: sum.splits)
  show ?thesis
    by (intro conjI A B C D E F G)
qed

theorem preload_always_fulfilled_witness:
  "load_image (sample_env []) ''assets/themes/ocean/bg.png'' = Loaded
   \<and> load_image (sample_env []) ''assets/themes/ocean/card-back.png'' = LoadFailed
   \<and> preloadThemeAssets (sample_env []) (Some (JStr ''ocean'')) =
       (Fulfilled (),
        [ImageLoad ''assets/themes/ocean/bg.png'', ImageLoad ''assets/themes/ocean/card-back.png''],
        [Log (''Theme '' @ sq @ ''ocean'' @ sq @ '' assets preloaded'')])
   \<and> String_val (js_engine (sample_env [])) (Some (JArr [JNum ''7'', JNull, JBool True]))
       = Inr ''7,,true''
   \<and> preloadThemeAssets (sample_env []) (Some (JArr [JNum ''7'', JNull, JBool True])) =
       (Fulfilled (),
        [ImageLoad ''assets/themes/7,,true/bg.png'',
         ImageLoad ''assets/themes/7,,true/card-back.png''],
        [Log (''Theme '' @ sq @ ''7,,true'' @ sq @ '' assets preloaded'')])
   \<and> String_val (js_engine (sample_env [])) (Some (JObj [(''toString'', JNum ''1'')]))
       = Inl (Thrown TypeError ''Cannot convert object to primitive value'' None)
   \<and> preloadThemeAssets (sample_env []) (Some (JObj [(''toString'', JNum ''1'')])) =
       (Rejected (Thrown TypeError ''Cannot convert object to primitive value'' None), [], [])"
proof -
  have i: "load_image (sample_env []) ''assets/themes/ocean/bg.png'' = Loaded
   \<and> load_image (sample_env []) ''assets/themes/ocean/card-back.png'' = LoadFailed"
    by (simp add: sample_env_def sample_images_def)
  have a: "String_val (js_engine (sample_env [])) (Some (JArr [JNum ''7'', JNull, JBool True]))
       = Inr ''7,,true''"
    by (simp add: String_val_def)
  have o: "String_val (js_engine (sample_env [])) (Some (JObj [(''toString'', JNum ''1'')]))
       = Inl (Thrown TypeError ''Cannot convert object to primitive value'' None)"
    by (simp add: String_val_def sample_env_def v8_def)
  have c1: "preloadThemeAssets (sample_env []) (Some (JStr ''ocean'')) =
       (Fulfilled (),
        [ImageLoad ''assets/themes/ocean/bg.png'', ImageLoad ''assets/themes/ocean/card-back.png''],
        [Log (''Theme '' @ sq @ ''ocean'' @ sq @ '' assets preloaded'')])"
    using preload_always_fulfilled [of "sample_env []" "''ocean''"] by simp
  have c2: "preloadThemeAssets (sample_env []) (Some (JArr [JNum ''7'', JNull, JBool True])) =
       (Fulfilled (),
        [ImageLoad ''assets/themes/7,,true/bg.png'',
         ImageLoad ''assets/themes/7,,true/card-back.png''],
        [Log (''Theme '' @ sq @ ''7,,true'' @ sq @ '' assets preloaded'')])"
    using preload_always_fulfilled
            [of "sample_env []" "''7,,true''" _ "Some (JArr [JNum ''7'', JNull, JBool True])"] a
    by simp
  have c3: "preloadThemeAssets (sample_env []) (Some (JObj [(''toString'', JNum ''1'')])) =
       (Rejected (Thrown TypeError ''Cannot convert object to primitive value'' None), [], [])"
    using preload_always_fulfilled
            [of "sample_env []" _ _ "Some (JObj [(''toString'', JNum ''1'')])"
                "Thrown TypeError ''Cannot convert object to primitive value'' None"] o
    by simp
  show ?thesis
    by (intro conjI i [THEN conjunct1] i [THEN conjunct2] c1 a c2 o c3)
qed

text \<open>
  Claim C8. For a falsy theme name (the empty string, or none at all) \<open>applyTheme\<close>
  only writes a warning to the console: the style of the body and the \<open>--card-back\<close>
  property stay as they are. For a theme name that is not empty (any truthy value that
  converts to a string) it does not throw, and it sets the background of the body (image
  \<open>url('assets/themes/<theme>/bg.png')\<close>, size, position and repeat) and the
  \<open>--card-back\<close> property (\<open>url('assets/themes/<theme>/card-back.png')\<close>), and nothing
  else of the two styles, the container or the console. For a truthy value whose
  conversion throws, it throws that error and leaves the page as it is.
\<close>

theorem applyTheme_frame:
  "(\<not> truthy_val themeName \<longrightarrow>
      applyTheme env themeName p =
        (None,
         p\<lparr>console := console p @ [Warn ''No theme specified, using default styling'' None]\<rparr>)
      \<and> body_style (snd (applyTheme env themeName p)) = body_style p
      \<and> root_style (snd (applyTheme env themeName p)) = root_style p)
   \<and> (truthy_val themeName \<and> String_val (js_engine env) themeName = Inr name \<longrightarrow>
      fst (applyTheme env themeName p) = None
      \<and> body_style (snd (applyTheme env themeName p)) =
        (body_style p)
          (''backgroundImage'' \<mapsto>
             ''url('' @ sq @ ''assets/themes/'' @ name @ ''/bg.png'' @ sq @ '')'',
           ''backgroundSize'' \<mapsto> ''cover'',
           ''backgroundPosition'' \<mapsto> ''center'',
           ''backgroundRepeat'' \<mapsto> ''no-repeat'')
      \<and> root_style (snd (applyTheme env themeName p)) =
        (root_style p)
          (''--card-back'' \<mapsto>
             ''url('' @ sq @ ''assets/themes/'' @ name @ ''/card-back.png'' @ sq @ '')'')
      \<and> container (snd (applyTheme env themeName p)) = container p
      \<and> console (snd (applyTheme env themeName p)) = console p)
   \<and> (truthy_val themeName \<and> String_val (js_engine env) themeName = Inl e \<longrightarrow>
      applyTheme env themeName p = (Some e, p))
   \<and> truthy_val (Some (JStr name)) = (name \<noteq> [])
   \<and> String_val (js_engine env) (Some (JStr name)) = Inr name
   \<and> \<not> truthy_val None"
  by (simp add: applyTheme_eq truthy_val_def)

theorem applyTheme_frame_witness:
  "\<not> truthy_val (Some (JStr []))
   \<and> applyTheme (sample_env []) (Some (JStr [])) blank_page =
       (None, blank_page\<lparr>console := [Warn ''No theme specified, using default styling'' None]\<rparr>)
   \<and> truthy_val (Some (JStr ''ocean''))
   \<and> fst (applyTheme (sample_env []) (Some (JStr ''ocean'')) blank_page) = None
   \<and> body_style (snd (applyTheme (sample_env []) (Some (JStr ''ocean'')) blank_page)) =
        Map.empty
          (''backgroundImage'' \<mapsto> ''url('' @ sq @ ''assets/themes/ocean/bg.png'' @ sq @ '')'',
           ''backgroundSize'' \<mapsto> ''cover'',
           ''backgroundPosition'' \<mapsto> ''center'',
           ''backgroundRepeat'' \<mapsto> ''no-repeat'')
   \<and> root_style (snd (applyTheme (sample_env []) (Some (JStr ''ocean'')) blank_page)) =
        Map.empty
          (''--card-back'' \<mapsto> ''url('' @ sq @ ''assets/themes/ocean/card-back.png'' @ sq @ '')'')
   \<and> truthy_val (Some (JObj [(''toString'', JNum ''1'')]))
   \<and> applyTheme (sample_env []) (Some (JObj [(''toString'', JNum ''1'')])) blank_page =
       (Some (Thrown TypeError ''Cannot convert object to primitive value'' None), blank_page)"
proof -
  have o: "String_val (js_engine (sample_env [])) (Some (JObj [(''toString'', JNum ''1'')]))
       = Inl (Thrown TypeError ''Cannot convert object to primitive value'' None)"
    by (simp add: String_val_def sample_env_def v8_def)
  show ?thesis
    using applyTheme_frame [of "Some (JStr [])" "sample_env []" blank_page "[]"]
        applyTheme_frame [of "Some (JStr ''ocean'')" "sample_env []" blank_page "''ocean''"]
        applyTheme_frame [of "Some (JObj [(''toString'', JNum ''1'')])" "sample_env []" blank_page
                             _ "Thrown TypeError ''Cannot convert object to primitive value'' None"]
        o
    by (simp add: truthy_val_def blank_page_def)
qed

section \<open>Properties of the loader\<close>

lemma validated_not_null: "validateConfig eng config = Inr b \<Longrightarrow> config \<noteq> JNull"
  by (auto simp: validateConfig_eq)

lemma try_block_stages:
  "try_block env p =
     (case fetched env p of
        (Inl e, q) \<Rightarrow> (Some e, q)
      | (Inr config, q) \<Rightarrow>
          (case validateConfig (js_engine env) config of
             Inl e \<Rightarrow> (Some e, q)
           | Inr b \<Rightarrow>
               (case themed env config p of
                  (Some e, q) \<Rightarrow> (Some e, q)
                | (None, q) \<Rightarrow>
                    (case loaded env config p of
                       (Inl e, q) \<Rightarrow> (Some e, q)
                     | (Inr g, q) \<Rightarrow>
                         (case started env g config p of
                            (Inl e, q) \<Rightarrow> (Some e, q)
                          | (Inr u, q) \<Rightarrow> (None, q))))))"
  by (auto simp: try_block_def fetched_def loaded_def themed_def started_def Let_def
        get_prop_own validated_not_null
      split: prod.splits sum.splits option.splits)

lemma fetchFromUrl_frame:
  "body_style (snd (fetchFromUrl env url p)) = body_style p
   \<and> root_style (snd (fetchFromUrl env url p)) = root_style p
   \<and> container (snd (fetchFromUrl env url p)) = container p
   \<and> console (snd (fetchFromUrl env url p)) = console p
   \<and> deferred (snd (fetchFromUrl env url p)) = deferred p
   \<and> requests (snd (fetchFromUrl env url p)) = requests p @ [Fetch url]"
  by (simp add: fetchFromUrl_def Let_def split: fetch_result.splits body.splits)

lemma fetchFromName_frame:
  "body_style (snd (fetchFromName env name p)) = body_style p
   \<and> root_style (snd (fetchFromName env name p)) = root_style p
   \<and> container (snd (fetchFromName env name p)) = container p
   \<and> console (snd (fetchFromName env name p)) = console p
   \<and> deferred (snd (fetchFromName env name p)) = deferred p
   \<and> requests (snd (fetchFromName env name p))
       = requests p @ [Fetch (''config/'' @ name @ ''.json'')]"
  by (simp add: fetchFromName_def Let_def split: fetch_result.splits body.splits)

lemma fetchConfig_frame:
  "body_style (snd (fetchConfigFromUrlOrName env p)) = body_style p
   \<and> root_style (snd (fetchConfigFromUrlOrName env p)) = root_style p
   \<and> container (snd (fetchConfigFromUrlOrName env p)) = container p
   \<and> console (snd (fetchConfigFromUrlOrName env p)) = console p
   \<and> deferred (snd (fetchConfigFromUrlOrName env p)) = deferred p
   \<and> (\<exists>url. requests (snd (fetchConfigFromUrlOrName env p)) = requests p @ [Fetch url])"
  using fetchFromUrl_frame fetchFromName_frame
  by (simp add: fetchConfigFromUrlOrName_def Let_def split_beta
           split: option.splits sum.splits)

lemma fetched_frame:
  "body_style (snd (fetched env p)) = body_style p
   \<and> root_style (snd (fetched env p)) = root_style p
   \<and> console (snd (fetched env p)) = console p
   \<and> deferred (snd (fetched env p)) = deferred p
   \<and> (\<exists>url. requests (snd (fetched env p)) = requests p @ [Fetch url])"
  using fetchConfig_frame [of env "showLoading ''Loading configuration...'' p"]
  by (simp add: fetched_def showLoading_def)

lemma error_markup_not_empty: "error_markup msg details \<noteq> []"
  by (simp add: error_markup_def Let_def)

lemma on_error_frame:
  "body_style (on_error e q) = body_style q
   \<and> root_style (on_error e q) = root_style q
   \<and> deferred (on_error e q) = deferred q
   \<and> requests (on_error e q) = requests q
   \<and> console (on_error e q) = console q @ [ConsoleError ''Game loader error:'' e]
   \<and> kids (container (on_error e q))
       = [Markup (error_markup (userMessage e) (Some (message e)))]"
  by (cases "container q") (simp add: on_error_def showError_def error_markup_not_empty)

lemma userMessage_missing_fields:
  "userMessage (new_Error ''Missing required config fields: gameType'')
     = ''Failed to load game. Please try again.''"
  by (simp add: userMessage_def new_Error_def)

lemma fetchFromUrl_result:
  "fst (fetchFromUrl env url p) =
     (case fetch env url of
        FetchRejects e \<Rightarrow> Inl e
      | Response st txt b \<Rightarrow>
          if \<not> ok st then Inl (Thrown Error (''HTTP '' @ show_nat st @ '': '' @ txt) None)
          else (case b of BadJson e \<Rightarrow> Inl e | Json j \<Rightarrow> Inr j))"
  by (simp add: fetchFromUrl_def Let_def new_Error_def split: fetch_result.splits body.splits)

lemma fetchFromName_result:
  "fst (fetchFromName env name p) =
     (case fetch env (''config/'' @ name @ ''.json'') of
        FetchRejects e \<Rightarrow> Inl e
      | Response st txt b \<Rightarrow>
          if \<not> ok st then
            Inl (Thrown Error
                   (if st = 404 then ''Config file '' @ sq @ name @ ''.json'' @ sq @ '' not found''
                    else ''HTTP '' @ show_nat st @ '': '' @ txt) None)
          else (case b of BadJson e \<Rightarrow> Inl e | Json j \<Rightarrow> Inr j))"
  by (simp add: fetchFromName_def Let_def new_Error_def split: fetch_result.splits body.splits)

lemma fetchConfig_result:
  "fst (fetchConfigFromUrlOrName env p) =
     (case (case params_get (query env) ''configUrl'' of
              None \<Rightarrow> fst (fetchFromName env
                             (case params_get (query env) ''configName'' of
                                None \<Rightarrow> ''card-flip''
                              | Some n \<Rightarrow> if n \<noteq> [] then n else ''card-flip'') p)
            | Some url \<Rightarrow>
                if url \<noteq> [] then fst (fetchFromUrl env url p)
                else fst (fetchFromName env
                            (case params_get (query env) ''configName'' of
                               None \<Rightarrow> ''card-flip''
                             | Some n \<Rightarrow> if n \<noteq> [] then n else ''card-flip'') p)) of
        Inl error \<Rightarrow>
          Inl (Thrown ConfigError (''Failed to load configuration: '' @ message error)
                 (Some (case type_tag error of None \<Rightarrow> ''CONFIG_ERROR'' | Some ty \<Rightarrow> ty)))
      | Inr config \<Rightarrow> Inr config)"
  by (simp add: fetchConfigFromUrlOrName_def getUrlParams_def Let_def split_beta
        new_ConfigError_def split: option.splits sum.splits)

lemma loadGameModule_result:
  "fst (loadGameModule env gameType p) =
     (case String_val (js_engine env) gameType of
        Inl e \<Rightarrow> Inl e
      | Inr gt \<Rightarrow>
          (case import_module env (''./games/'' @ gt @ ''.js'') of
             ImportRejects e \<Rightarrow>
               Inl (if str_includes (message e) ''Failed to resolve module''
                    then Thrown Error (''Game module '' @ sq @ gt @ ''.js'' @ sq
                                         @ '' not found'') None
                    else e)
           | Module None \<Rightarrow>
               Inl (Thrown Error
                      (if str_includes (''Game module '' @ sq @ gt @ sq
                                          @ '' missing startGame function'')
                            ''Failed to resolve module''
                       then ''Game module '' @ sq @ gt @ ''.js'' @ sq @ '' not found''
                       else ''Game module '' @ sq @ gt @ sq
                              @ '' missing startGame function'') None)
           | Module (Some g) \<Rightarrow> Inr g))"
  by (simp add: loadGameModule_def Let_def new_Error_def
           split: import_result.splits option.splits sum.splits)

lemma loadGameModule_frame:
  "body_style (snd (loadGameModule env gameType q)) = body_style q
   \<and> root_style (snd (loadGameModule env gameType q)) = root_style q
   \<and> container (snd (loadGameModule env gameType q)) = container q
   \<and> console (snd (loadGameModule env gameType q)) = console q
   \<and> deferred (snd (loadGameModule env gameType q)) = deferred q
   \<and> requests (snd (loadGameModule env gameType q))
       = requests q @ (case String_val (js_engine env) gameType of
                         Inl e \<Rightarrow> []
                       | Inr gt \<Rightarrow> [Import (''./games/'' @ gt @ ''.js'')])"
  by (simp add: loadGameModule_def Let_def
           split: import_result.splits option.splits sum.splits)

lemma fetched_result: "fst (fetched env p) = fst (fetchConfigFromUrlOrName env p)"
  by (simp add: fetched_def fetchConfig_result fetchFromUrl_result fetchFromName_result
        split: option.splits)

lemma loaded_result:
  "fst (loaded env config p) = fst (loadGameModule env (own config ''gameType'') p)"
  by (simp add: loaded_def loadGameModule_result)

lemma themed_eq:
  "themed env config p =
     applyTheme env (own config ''theme'') (showLoading ''Applying theme...'' (snd (fetched env p)))"
  by (simp add: themed_def)

lemma themed_failure:
  "fst (themed env config p) = Some e \<Longrightarrow>
   snd (themed env config p) = showLoading ''Applying theme...'' (snd (fetched env p))"
  by (auto simp: themed_def applyTheme_eq split: if_splits sum.splits)

text \<open>The definitions of the sample site, for evaluating a run on it.\<close>

lemmas sample_defs =
  params_get_def sample_env_def sample_fetch_def sample_import_def ok_def String_val_def
  own_def truthy_val_def

lemma config_failure_message:
  "fst (fetchConfigFromUrlOrName env p) = Inl e \<Longrightarrow>
   userMessage e = ''Game configuration error. Please check the game settings.''"
  unfolding fetchConfig_result by (auto simp: userMessage_def split: sum.splits)

lemma fails_without_gameType:
  "fst (fetched env p) = Inr (JObj kv) \<Longrightarrow> map_of kv ''gameType'' = None \<Longrightarrow>
   initialize env p
     = on_error (new_Error ''Missing required config fields: gameType'') (snd (fetched env p))"
  by (cases "fetched env p")
     (simp add: initialize_def try_block_stages validateConfig_eq own_def truthy_val_def)

lemma fails_at_fetch:
  "fst (fetched env p) = Inl e \<Longrightarrow> initialize env p = on_error e (snd (fetched env p))"
  by (cases "fetched env p") (simp add: initialize_def try_block_stages)

lemma fails_at_validation:
  "fst (fetched env p) = Inr config \<Longrightarrow> validateConfig (js_engine env) config = Inl e \<Longrightarrow>
   initialize env p = on_error e (snd (fetched env p))"
  by (cases "fetched env p") (simp add: initialize_def try_block_stages)

lemma fails_at_theme:
  "fst (fetched env p) = Inr config \<Longrightarrow> validateConfig (js_engine env) config = Inr b \<Longrightarrow>
   fst (themed env config p) = Some e \<Longrightarrow>
   initialize env p = on_error e (snd (themed env config p))"
  by (cases "fetched env p"; cases "themed env config p")
     (simp add: initialize_def try_block_stages)

lemma fails_at_module:
  "fst (fetched env p) = Inr config \<Longrightarrow> validateConfig (js_engine env) config = Inr b \<Longrightarrow>
   fst (themed env config p) = None \<Longrightarrow> fst (loaded env config p) = Inl e \<Longrightarrow>
   initialize env p = on_error e (snd (loaded env config p))"
  by (cases "fetched env p"; cases "themed env config p"; cases "loaded env config p")
     (simp add: initialize_def try_block_stages)

lemma fails_at_start:
  "fst (fetched env p) = Inr config \<Longrightarrow> validateConfig (js_engine env) config = Inr b \<Longrightarrow>
   fst (themed env config p) = None \<Longrightarrow> fst (loaded env config p) = Inr g \<Longrightarrow>
   fst (started env g config p) = Inl e \<Longrightarrow>
   initialize env p = on_error e (snd (started env g config p))"
  by (cases "fetched env p"; cases "themed env config p"; cases "loaded env config p";
      cases "started env g config p")
     (simp add: initialize_def try_block_stages)

lemma runs_to_the_end:
  "fst (fetched env p) = Inr config \<Longrightarrow> validateConfig (js_engine env) config = Inr b \<Longrightarrow>
   fst (themed env config p) = None \<Longrightarrow> fst (loaded env config p) = Inr g \<Longrightarrow>
   fst (started env g config p) = Inr u \<Longrightarrow>
   initialize env p = snd (started env g config p)"
  by (cases "fetched env p"; cases "themed env config p"; cases "loaded env config p";
      cases "started env g config p")
     (simp add: initialize_def try_block_stages)

text \<open>
  Claim C2. When the configuration fetched is an object without \<open>gameType\<close>, the run
  fails at validation: it ends in the \<^verbatim>\<open>catch\<close> block with the error that lists
  \<open>gameType\<close> as missing, and its only effects are the one configuration request, the
  error on the console and the error message in the container; the styles of the page
  are untouched and no image or module is requested. In general, a run in which a step
  fails (the fetch, the validation, the application of the theme, the loading of the
  module, the initialization of the game) ends in the \<^verbatim>\<open>catch\<close> block on the page as
  that step left it, with no later step run; a run in which no step fails ends on the
  page as the game left it. The \<^verbatim>\<open>catch\<close> block leaves the styles and the requests as
  they are and puts the error message in the container. The fetch step leaves the
  styles as they are and issues one request; a theme step that fails has applied
  nothing; the step that loads the module leaves the container and the console as they
  were when it began and issues at most the one import.
\<close>

theorem failure_ends_the_run:
  "(fst (fetched env p) = Inr (JObj kv) \<and> map_of kv ''gameType'' = None \<longrightarrow>
      initialize env p
        = on_error (new_Error ''Missing required config fields: gameType'') (snd (fetched env p))
      \<and> body_style (initialize env p) = body_style p
      \<and> root_style (initialize env p) = root_style p
      \<and> deferred (initialize env p) = deferred p
      \<and> (\<exists>url. requests (initialize env p) = requests p @ [Fetch url])
      \<and> console (initialize env p)
          = console p @ [ConsoleError ''Game loader error:''
                           (new_Error ''Missing required config fields: gameType'')]
      \<and> kids (container (initialize env p))
          = [Markup (error_markup ''Failed to load game. Please try again.''
                       (Some ''Missing required config fields: gameType''))])
   \<and> (fst (fetched env p) = Inl e \<longrightarrow>
        initialize env p = on_error e (snd (fetched env p)))
   \<and> (fst (fetched env p) = Inr config \<and> validateConfig (js_engine env) config = Inl e \<longrightarrow>
        initialize env p = on_error e (snd (fetched env p)))
   \<and> (fst (fetched env p) = Inr config \<and> validateConfig (js_engine env) config = Inr b
        \<and> fst (themed env config p) = Some e \<longrightarrow>
        initialize env p = on_error e (snd (themed env config p))
        \<and> snd (themed env config p) = showLoading ''Applying theme...'' (snd (fetched env p)))
   \<and> (fst (fetched env p) = Inr config \<and> validateConfig (js_engine env) config = Inr b
        \<and> fst (themed env config p) = None
        \<and> fst (loaded env config p) = Inl e \<longrightarrow>
        initialize env p = on_error e (snd (loaded env config p)))
   \<and> (fst (fetched env p) = Inr config \<and> validateConfig (js_engine env) config = Inr b
        \<and> fst (themed env config p) = None
        \<and> fst (loaded env config p) = Inr g
        \<and> fst (started env g config p) = Inl e \<longrightarrow>
        initialize env p = on_error e (snd (started env g config p)))
   \<and> (fst (fetched env p) = Inr config \<and> validateConfig (js_engine env) config = Inr b
        \<and> fst (themed env config p) = None
        \<and> fst (loaded env config p) = Inr g
        \<and> fst (started env g config p) = Inr u \<longrightarrow>
        initialize env p = snd (started env g config p))
   \<and> body_style (on_error e q) = body_style q
   \<and> root_style (on_error e q) = root_style q
   \<and> requests (on_error e q) = requests q
   \<and> deferred (on_error e q) = deferred q
   \<and> kids (container (on_error e q)) = [Markup (error_markup (userMessage e) (Some (message e)))]
   \<and> body_style (snd (fetched env p)) = body_style p
   \<and> root_style (snd (fetched env p)) = root_style p
   \<and> deferred (snd (fetched env p)) = deferred p
   \<and> (\<exists>url. requests (snd (fetched env p)) = requests p @ [Fetch url])
   \<and> container (snd (loaded env config p))
       = container (showLoading ''Loading game module...'' (snd (themed env config p)))
   \<and> console (snd (loaded env config p)) = console (snd (themed env config p))
   \<and> requests (snd (loaded env config p))
       = requests (snd (themed env config p))
           @ (case String_val (js_engine env) (own config ''gameType'') of
                Inl e \<Rightarrow> []
              | Inr gt \<Rightarrow> [Import (''./games/'' @ gt @ ''.js'')])"
proof -
  note fr = fetched_frame [of env p]
  have A: "fst (fetched env p) = Inr (JObj kv) \<and> map_of kv ''gameType'' = None \<longrightarrow>
      initialize env p
        = on_error (new_Error ''Missing required config fields: gameType'') (snd (fetched env p))
      \<and> body_style (initialize env p) = body_style p
      \<and> root_style (initialize env p) = root_style p
      \<and> deferred (initialize env p) = deferred p
      \<and> (\<exists>url. requests (initialize env p) = requests p @ [Fetch url])
      \<and> console (initialize env p)
          = console p @ [ConsoleError ''Game loader error:''
                           (new_Error ''Missing required config fields: gameType'')]
      \<and> kids (container (initialize env p))
          = [Markup (error_markup ''Failed to load game. Please try again.''
                       (Some ''Missing required config fields: gameType''))]"
  proof
    assume h: "fst (fetched env p) = Inr (JObj kv) \<and> map_of kv ''gameType'' = None"
    then have i: "initialize env p
        = on_error (new_Error ''Missing required config fields: gameType'') (snd (fetched env p))"
      using fails_without_gameType by blast
    have m: "message (new_Error ''Missing required config fields: gameType'')
               = ''Missing required config fields: gameType''"
      by (simp add: new_Error_def)
    show "initialize env p
        = on_error (new_Error ''Missing required config fields: gameType'') (snd (fetched env p))
      \<and> body_style (initialize env p) = body_style p
      \<and> root_style (initialize env p) = root_style p
      \<and> deferred (initialize env p) = deferred p
      \<and> (\<exists>url. requests (initialize env p) = requests p @ [Fetch url])
      \<and> console (initialize env p)
          = console p @ [ConsoleError ''Game loader error:''
                           (new_Error ''Missing required config fields: gameType'')]
      \<and> kids (container (initialize env p))
          = [Markup (error_markup ''Failed to load game. Please try again.''
                       (Some ''Missing required config fields: gameType''))]"
      unfolding i
      using fr on_error_frame [of "new_Error ''Missing required config fields: gameType''"
                                  "snd (fetched env p)"]
      by (simp only: userMessage_missing_fields m)
  qed
  have B: "fst (fetched env p) = Inl e \<longrightarrow>
        initialize env p = on_error e (snd (fetched env p))"
    using fails_at_fetch by blast
  have C: "fst (fetched env p) = Inr config \<and> validateConfig (js_engine env) config = Inl e \<longrightarrow>
        initialize env p = on_error e (snd (fetched env p))"
    using fails_at_validation by blast
  have T: "fst (fetched env p) = Inr config \<and> validateConfig (js_engine env) config = Inr b
        \<and> fst (themed env config p) = Some e \<longrightarrow>
        initialize env p = on_error e (snd (themed env config p))
        \<and> snd (themed env config p) = showLoading ''Applying theme...'' (snd (fetched env p))"
    using fails_at_theme themed_failure by blast
  have D: "fst (fetched env p) = Inr config \<and> validateConfig (js_engine env) config = Inr b
        \<and> fst (themed env config p) = None
        \<and> fst (loaded env config p) = Inl e \<longrightarrow>
        initialize env p = on_error e (snd (loaded env config p))"
    using fails_at_module by blast
  have F: "fst (fetched env p) = Inr config \<and> validateConfig (js_engine env) config = Inr b
        \<and> fst (themed env config p) = None
        \<and> fst (loaded env config p) = Inr g
        \<and> fst (started env g config p) = Inl e \<longrightarrow>
        initialize env p = on_error e (snd (started env g config p))"
    using fails_at_start by blast
  have G: "fst (fetched env p) = Inr config \<and> validateConfig (js_engine env) config = Inr b
        \<and> fst (themed env config p) = None
        \<and> fst (loaded env config p) = Inr g
        \<and> fst (started env g config p) = Inr u \<longrightarrow>
        initialize env p = snd (started env g config p)"
    using runs_to_the_end by blast
  have H: "body_style (on_error e q) = body_style q
   \<and> root_style (on_error e q) = root_style q
   \<and> requests (on_error e q) = requests q
   \<and> deferred (on_error e q) = deferred q
   \<and> kids (container (on_error e q)) = [Markup (error_markup (userMessage e) (Some (message e)))]"
    using on_error_frame [of e q] by blast
  have I: "body_style (snd (fetched env p)) = body_style p
   \<and> root_style (snd (fetched env p)) = root_style p
   \<and> deferred (snd (fetched env p)) = deferred p
   \<and> (\<exists>url. requests (snd (fetched env p)) = requests p @ [Fetch url])"
    using fr by blast
  have J: "container (snd (loaded env config p))
       = container (showLoading ''Loading game module...'' (snd (themed env config p)))
   \<and> console (snd (loaded env config p)) = console (snd (themed env config p))
   \<and> requests (snd (loaded env config p))
       = requests (snd (themed env config p))
           @ (case String_val (js_engine env) (own config ''gameType'') of
                Inl e \<Rightarrow> []
              | Inr gt \<Rightarrow> [Import (''./games/'' @ gt @ ''.js'')])"
    using loadGameModule_frame
            [of env "own config ''gameType''"
                "showLoading ''Loading game module...'' (snd (themed env config p))"]
    by (simp add: loaded_def showLoading_def)
  show ?thesis
    using A B C T D F G H I J by (simp only: simp_thms)
qed

theorem failure_ends_the_run_witness:
  "initialize (sample_env [(''configName'', ''no-type'')]) blank_page
     = on_error (new_Error ''Missing required config fields: gameType'')
         (snd (fetched (sample_env [(''configName'', ''no-type'')]) blank_page))
   \<and> body_style (initialize (sample_env [(''configName'', ''no-type'')]) blank_page)
       = body_style blank_page
   \<and> root_style (initialize (sample_env [(''configName'', ''no-type'')]) blank_page)
       = root_style blank_page
   \<and> (\<exists>url. requests (initialize (sample_env [(''configName'', ''no-type'')]) blank_page)
               = requests blank_page @ [Fetch url])
   \<and> initialize (sample_env [(''configName'', ''nope'')]) blank_page
     = on_error (Thrown ConfigError
                   (''Failed to load configuration: Config file '' @ sq @ ''nope.json'' @ sq
                      @ '' not found'') (Some ''CONFIG_ERROR''))
         (snd (fetched (sample_env [(''configName'', ''nope'')]) blank_page))
   \<and> initialize (sample_env [(''configName'', ''empty-type'')]) blank_page
     = on_error (new_Error ''Missing required config fields: gameType'')
         (snd (fetched (sample_env [(''configName'', ''empty-type'')]) blank_page))
   \<and> initialize (sample_env [(''configName'', ''odd-theme'')]) blank_page
     = on_error (Thrown TypeError ''Cannot convert object to primitive value'' None)
         (showLoading ''Applying theme...''
            (snd (fetched (sample_env [(''configName'', ''odd-theme'')]) blank_page)))
   \<and> initialize (sample_env [(''configName'', ''ghost'')]) blank_page
     = on_error (Thrown TypeError
                   ''Failed to fetch dynamically imported module: https://example.org/games/ghost.js''
                   None)
         (snd (loaded (sample_env [(''configName'', ''ghost'')])
                 (JObj [(''gameType'', JStr ''ghost'')]) blank_page))
   \<and> initialize (sample_env [(''configName'', ''no-cards'')]) blank_page
     = on_error (Thrown Error
                   (''Failed to initialize game: Cannot read properties of undefined (reading ''
                      @ sq @ ''forEach'' @ sq @ '')'') None)
         (snd (started (sample_env [(''configName'', ''no-cards'')]) (startGame v8)
                 (JObj [(''gameType'', JStr ''card-flip'')]) blank_page))
   \<and> initialize (sample_env []) blank_page
     = snd (started (sample_env []) (startGame v8) sample_config blank_page)"
proof -
  let ?E1 = "sample_env [(''configName'', ''no-type'')]"
  let ?E2 = "sample_env [(''configName'', ''nope'')]"
  let ?E3 = "sample_env [(''configName'', ''empty-type'')]"
  let ?E4 = "sample_env [(''configName'', ''ghost'')]"
  let ?E5 = "sample_env [(''configName'', ''no-cards'')]"
  let ?E6 = "sample_env [(''configName'', ''odd-theme'')]"
  let ?E0 = "sample_env []"
  let ?c4 = "JObj [(''gameType'', JStr ''ghost'')]"
  let ?c5 = "JObj [(''gameType'', JStr ''card-flip'')]"
  let ?c6 = "JObj [(''gameType'', JStr ''card-flip''),
                   (''theme'', JObj [(''toString'', JNum ''1'')]),
                   (''cards'', JArr [])]"
  have f1: "fst (fetched ?E1 blank_page)
              = Inr (JObj [(''theme'', JStr ''ocean''), (''cards'', JArr [])])"
    by (simp add: fetched_result fetchConfig_result fetchFromName_result sample_defs)
  have g1: "map_of [(''theme'', JStr ''ocean''), (''cards'', JArr [])] ''gameType'' = None"
    by simp
  have f2: "fst (fetched ?E2 blank_page)
              = Inl (Thrown ConfigError
                   (''Failed to load configuration: Config file '' @ sq @ ''nope.json'' @ sq
                      @ '' not found'') (Some ''CONFIG_ERROR''))"
    by (simp add: fetched_result fetchConfig_result fetchFromName_result sample_defs)
  have f3: "fst (fetched ?E3 blank_page)
              = Inr (JObj [(''gameType'', JStr []), (''cards'', JArr [])])"
    by (simp add: fetched_result fetchConfig_result fetchFromName_result sample_defs)
  have v3: "validateConfig (js_engine ?E3) (JObj [(''gameType'', JStr []), (''cards'', JArr [])])
              = Inl (new_Error ''Missing required config fields: gameType'')"
    by (simp add: validateConfig_eq sample_defs)
  have f4: "fst (fetched ?E4 blank_page) = Inr ?c4"
    by (simp add: fetched_result fetchConfig_result fetchFromName_result sample_defs)
  have v4: "validateConfig (js_engine ?E4) ?c4 = Inr True"
    by (simp add: validateConfig_eq sample_defs)
  have t4: "fst (themed ?E4 ?c4 blank_page) = None"
    by (simp add: themed_def applyTheme_eq own_def truthy_val_def)
  have l4: "fst (loaded ?E4 ?c4 blank_page)
              = Inl (Thrown TypeError
                   ''Failed to fetch dynamically imported module: https://example.org/games/ghost.js''
                   None)"
    by (simp add: loaded_result loadGameModule_result sample_defs)
  have f5: "fst (fetched ?E5 blank_page) = Inr ?c5"
    by (simp add: fetched_result fetchConfig_result fetchFromName_result sample_defs)
  have v5: "validateConfig (js_engine ?E5) ?c5 = Inr True"
    by (simp add: validateConfig_eq sample_defs)
  have t5: "fst (themed ?E5 ?c5 blank_page) = None"
    by (simp add: themed_def applyTheme_eq own_def truthy_val_def)
  have l5: "fst (loaded ?E5 ?c5 blank_page) = Inr (startGame v8)"
    by (simp add: loaded_result loadGameModule_result sample_defs)
  have s5: "fst (started ?E5 (startGame v8) ?c5 blank_page)
              = Inl (Thrown Error
                   (''Failed to initialize game: Cannot read properties of undefined (reading ''
                      @ sq @ ''forEach'' @ sq @ '')'') None)"
    by (cases "container (snd (loaded ?E5 ?c5 blank_page))")
       (simp add: started_def initializeGame_def showLoading_def startGame_def Let_def
          new_Error_def v8_def sample_env_def createElement_def truthy_val_def)
  have f6: "fst (fetched ?E6 blank_page) = Inr ?c6"
    by (simp add: fetched_result fetchConfig_result fetchFromName_result sample_defs)
  have v6: "validateConfig (js_engine ?E6) ?c6 = Inr True"
    by (simp add: validateConfig_eq sample_defs)
  have t6: "fst (themed ?E6 ?c6 blank_page)
              = Some (Thrown TypeError ''Cannot convert object to primitive value'' None)"
    by (simp add: themed_def applyTheme_eq sample_defs v8_def)
  have f0: "fst (fetched ?E0 blank_page) = Inr sample_config"
    by (simp add: fetched_result fetchConfig_result fetchFromName_result sample_defs)
  have v0: "validateConfig (js_engine ?E0) sample_config = Inr True"
    by (simp add: validateConfig_eq sample_defs sample_config_def)
  have t0: "fst (themed ?E0 sample_config blank_page) = None"
    by (simp add: themed_def applyTheme_eq sample_defs sample_config_def)
  have l0: "fst (loaded ?E0 sample_config blank_page) = Inr (startGame v8)"
    by (simp add: loaded_result loadGameModule_result sample_defs sample_config_def)
  have s0: "fst (started ?E0 (startGame v8) sample_config blank_page) = Inr ()"
    by (cases "container (snd (loaded ?E0 sample_config blank_page))")
       (simp add: started_def initializeGame_def showLoading_def startGame_def Let_def
          makeCard_eq sample_config_def sample_env_def createElement_def truthy_val_def
          String_val_def own_def)
  note w1 = failure_ends_the_run [of ?E1 blank_page "[(''theme'', JStr ''ocean''), (''cards'', JArr [])]"]
  note w2 = failure_ends_the_run [of ?E2 blank_page]
  note w3 = failure_ends_the_run [of ?E3 blank_page _ _ "JObj [(''gameType'', JStr []), (''cards'', JArr [])]"]
  note w4 = failure_ends_the_run [of ?E4 blank_page _ _ ?c4 True]
  note w5 = failure_ends_the_run [of ?E5 blank_page _ _ ?c5 True "startGame v8"]
  note w6 = failure_ends_the_run [of ?E6 blank_page _ _ ?c6 True]
  note w0 = failure_ends_the_run [of ?E0 blank_page _ _ sample_config True "startGame v8" "()"]
  have c1: "initialize ?E1 blank_page
     = on_error (new_Error ''Missing required config fields: gameType'')
         (snd (fetched ?E1 blank_page))
   \<and> body_style (initialize ?E1 blank_page) = body_style blank_page
   \<and> root_style (initialize ?E1 blank_page) = root_style blank_page
   \<and> (\<exists>url. requests (initialize ?E1 blank_page) = requests blank_page @ [Fetch url])"
    using w1 f1 g1 by blast
  have c2: "initialize ?E2 blank_page
     = on_error (Thrown ConfigError
                   (''Failed to load configuration: Config file '' @ sq @ ''nope.json'' @ sq
                      @ '' not found'') (Some ''CONFIG_ERROR''))
         (snd (fetched ?E2 blank_page))"
    using w2 f2 by blast
  have c3: "initialize ?E3 blank_page
     = on_error (new_Error ''Missing required config fields: gameType'')
         (snd (fetched ?E3 blank_page))"
    using w3 f3 v3 by blast
  have c6: "initialize ?E6 blank_page
     = on_error (Thrown TypeError ''Cannot convert object to primitive value'' None)
         (showLoading ''Applying theme...'' (snd (fetched ?E6 blank_page)))"
    using w6 f6 v6 t6 by metis
  have c4: "initialize ?E4 blank_page
     = on_error (Thrown TypeError
                   ''Failed to fetch dynamically imported module: https://example.org/games/ghost.js''
                   None)
         (snd (loaded ?E4 ?c4 blank_page))"
    using w4 f4 v4 t4 l4 by blast
  have c5: "initialize ?E5 blank_page
     = on_error (Thrown Error
                   (''Failed to initialize game: Cannot read properties of undefined (reading ''
                      @ sq @ ''forEach'' @ sq @ '')'') None)
         (snd (started ?E5 (startGame v8) ?c5 blank_page))"
    using w5 f5 v5 t5 l5 s5 by blast
  have c0: "initialize ?E0 blank_page
     = snd (started ?E0 (startGame v8) sample_config blank_page)"
    using w0 f0 v0 t0 l0 s0 by blast
  show ?thesis
    by (intro conjI c1 [THEN conjunct1] c1 [THEN conjunct2, THEN conjunct1]
          c1 [THEN conjunct2, THEN conjunct2, THEN conjunct1]
          c1 [THEN conjunct2, THEN conjunct2, THEN conjunct2] c2 c3 c6 c4 c5 c0)
qed

text \<open>
  Whatever the query string is, a run whose configuration request is answered with
  status 404 shows the message of a configuration error.
\<close>

lemma status_404_fails_fetch:
  assumes "requests (snd (fetched env p)) = requests p @ [Fetch url]"
    and "fetch env url = Response 404 txt b"
  shows "\<exists>e. fst (fetched env p) = Inl e"
  using assms
  by (auto simp: fetched_result fetchConfig_result fetchFromUrl_result fetchFromName_result
        fetched_def fetchConfig_requests showLoading_def ok_def split: option.splits)

lemma status_404_is_configuration_error:
  assumes "requests (snd (fetched env p)) = requests p @ [Fetch url]"
    and "fetch env url = Response 404 txt b"
  shows "\<exists>details. kids (container (initialize env p))
           = [Markup (error_markup ''Game configuration error. Please check the game settings.''
                        (Some details))]"
proof -
  from status_404_fails_fetch [OF assms] obtain e where e: "fst (fetched env p) = Inl e"
    by blast
  then have u: "userMessage e = ''Game configuration error. Please check the game settings.''"
    by (simp add: fetched_result config_failure_message)
  have "initialize env p = on_error e (snd (fetched env p))"
    using e by (rule fails_at_fetch)
  then show ?thesis
    using on_error_frame [of e "snd (fetched env p)"] u by auto
qed

text \<open>
  Claim C3 does not hold of the code. On the sample site the configuration
  \<open>config/nope.json\<close> does not exist and its fetch returns status 404. The error of
  \<open>fetchFromName\<close> says \<open>not found\<close>, and \<open>fetchConfigFromUrlOrName\<close> wraps it in a
  \<open>ConfigError\<close>, which the \<^verbatim>\<open>catch\<close> block of \<open>initialize\<close> tests for first: the
  message shown is the one of a configuration error, not the one of missing files.
\<close>

theorem config_404_shows_configuration_error:
  "status (fetch (sample_env [(''configName'', ''nope'')]) ''config/nope.json'') = 404
   \<and> requests (initialize (sample_env [(''configName'', ''nope'')]) blank_page)
       = [Fetch ''config/nope.json'']
   \<and> kids (container (initialize (sample_env [(''configName'', ''nope'')]) blank_page))
       = [Markup (error_markup ''Game configuration error. Please check the game settings.''
            (Some (''Failed to load configuration: Config file '' @ sq @ ''nope.json'' @ sq
                     @ '' not found'')))]
   \<and> kids (container (initialize (sample_env [(''configName'', ''nope'')]) blank_page))
       \<noteq> [Markup (error_markup ''Game files are missing. Please check the installation.''
            (Some (''Failed to load configuration: Config file '' @ sq @ ''nope.json'' @ sq
                     @ '' not found'')))]"
proof -
  let ?E = "sample_env [(''configName'', ''nope'')]"
  let ?e = "Thrown ConfigError
              (''Failed to load configuration: Config file '' @ sq @ ''nope.json'' @ sq
                 @ '' not found'') (Some ''CONFIG_ERROR'')"
  have st: "status (fetch ?E ''config/nope.json'') = 404"
    by (simp add: sample_env_def sample_fetch_def)
  have f: "fst (fetched ?E blank_page) = Inl ?e"
    by (simp add: fetched_result fetchConfig_result fetchFromName_result sample_defs)
  have i: "initialize ?E blank_page = on_error ?e (snd (fetched ?E blank_page))"
    using f by (rule fails_at_fetch)
  have u: "userMessage ?e = ''Game configuration error. Please check the game settings.''"
    by (simp add: userMessage_def)
  have r: "requests (snd (fetched ?E blank_page)) = [Fetch ''config/nope.json'']"
    by (simp add: fetched_def fetchConfig_requests showLoading_def blank_page_def sample_defs)
  have k: "kids (container (initialize ?E blank_page))
       = [Markup (error_markup ''Game configuration error. Please check the game settings.''
            (Some (''Failed to load configuration: Config file '' @ sq @ ''nope.json'' @ sq
                     @ '' not found'')))]"
    unfolding i using on_error_frame [of ?e "snd (fetched ?E blank_page)"] u by simp
  have n: "error_markup ''Game configuration error. Please check the game settings.'' d
             \<noteq> error_markup ''Game files are missing. Please check the installation.'' d" for d
    by (simp add: error_markup_def Let_def)
  have q: "requests (initialize ?E blank_page) = [Fetch ''config/nope.json'']"
    unfolding i using on_error_frame [of ?e "snd (fetched ?E blank_page)"] r by simp
  show ?thesis
    using st q k n by simp
qed




section \<open>Properties of StorageUtils\<close>

lemma getItem_absent:
  "map_of (storage st) key = None \<Longrightarrow> fst (getItem api key d st) = d"
  by (simp add: getItem_def)

lemma call_keeps_absent:
  "map_of (storage st) key = None \<Longrightarrow> \<not> sets_key key c \<Longrightarrow>
   map_of (storage (call api c st)) key = None"
  by (cases c)
     (auto simp: setItem_def getItem_def removeItem_def clear_def update_conv' delete_conv'
           split: stringify_result.splits option.splits sum.splits)

lemma calls_keep_absent:
  "map_of (storage st) key = None \<Longrightarrow> \<not> list_ex (sets_key key) cs \<Longrightarrow>
   map_of (storage (calls api cs st)) key = None"
  by (induction cs arbitrary: st) (simp_all add: call_keeps_absent)

text \<open>
  Claim C10. For every key and every JSON-serializable value, \<open>getItem\<close> of the key
  right after \<open>setItem\<close> of the key and the value returns that value. \<open>getItem\<close> of a
  key returns the default given when no call since the creation of the storage set the
  key, when the key was just removed, and when the storage was just cleared.
\<close>

theorem storage_roundtrip:
  "(json_serializable api v \<longrightarrow> fst (getItem api key d (setItem api key v st)) = v)
   \<and> (\<not> list_ex (sets_key key) cs \<longrightarrow>
        fst (getItem api key d (calls api cs new_storage)) = d)
   \<and> fst (getItem api key d (removeItem key st)) = d
   \<and> fst (getItem api key d (clear st)) = d"
proof (intro conjI impI)
  assume "json_serializable api v"
  then show "fst (getItem api key d (setItem api key v st)) = v"
    by (auto simp: json_serializable_def setItem_def getItem_def update_conv'
             split: stringify_result.splits)
next
  assume "\<not> list_ex (sets_key key) cs"
  then have "map_of (storage (calls api cs new_storage)) key = None"
    by (intro calls_keep_absent) (simp_all add: new_storage_def)
  then show "fst (getItem api key d (calls api cs new_storage)) = d"
    by (rule getItem_absent)
next
  show "fst (getItem api key d (removeItem key st)) = d"
    by (simp add: getItem_def removeItem_def delete_conv')
  show "fst (getItem api key d (clear st)) = d"
    by (simp add: getItem_def clear_def)
qed

theorem storage_roundtrip_witness:
  "json_serializable literal_api (JBool True)
   \<and> fst (getItem literal_api ''score'' JNull
            (setItem literal_api ''score'' (JBool True) new_storage)) = JBool True
   \<and> \<not> list_ex (sets_key ''score'')
          [SetItem ''level'' (JBool False), RemoveItem ''score'', GetItem ''level'' JNull, Keys]
   \<and> fst (getItem literal_api ''score'' (JBool False)
            (calls literal_api
               [SetItem ''level'' (JBool False), RemoveItem ''score'', GetItem ''level'' JNull, Keys]
               new_storage)) = JBool False"
proof -
  have s: "json_serializable literal_api (JBool True)"
    by (simp add: json_serializable_def literal_api_def literal_stringify_def literal_parse_def)
  have n: "\<not> list_ex (sets_key ''score'')
          [SetItem ''level'' (JBool False), RemoveItem ''score'', GetItem ''level'' JNull, Keys]"
    by simp
  show ?thesis
    using s n
      storage_roundtrip [of literal_api "JBool True" "''score''" JNull new_storage]
      storage_roundtrip [of literal_api _ "''score''" "JBool False" _
         "[SetItem ''level'' (JBool False), RemoveItem ''score'', GetItem ''level'' JNull, Keys]"]
    by simp
qed

end
